theory Spec2Isabelle
  imports Main "HOL-Library.Word"
begin

unbundle bit_operations_syntax

section \<open>GC2145 sensor driver: data model\<close>

text \<open>
  Shallow embedding of \<^verbatim>\<open>gc2145.c\<close>. C integers of fixed width are words
  (\<^verbatim>\<open>u8\<close>, \<^verbatim>\<open>u32\<close>/\<^verbatim>\<open>unsigned int\<close>, and \<^verbatim>\<open>s32\<close> for the \<^verbatim>\<open>int\<close> power
  reference count, which wraps around as in a kernel build); \<^verbatim>\<open>int\<close> return codes
  are HOL integers (0 is success, a negative value is \<^verbatim>\<open>-errno\<close>).
  The mutex is not modelled: every function is one atomic step.
\<close>

type_synonym u8 = "8 word"
type_synonym u32 = "32 word"
type_synonym s32 = "32 word"

subsection \<open>Constants of the kernel headers used by the driver\<close>

text \<open>\<^verbatim>\<open>errno-base.h\<close>\<close>

definition ENXIO :: int where "ENXIO = 6"
definition EINVAL :: int where "EINVAL = 22"

text \<open>\<^verbatim>\<open>media-bus-format.h\<close>\<close>

definition MEDIA_BUS_FMT_RGB565_2X8_BE :: u32 where "MEDIA_BUS_FMT_RGB565_2X8_BE = 0x1007"
definition MEDIA_BUS_FMT_UYVY8_2X8 :: u32 where "MEDIA_BUS_FMT_UYVY8_2X8 = 0x2006"
definition MEDIA_BUS_FMT_VYUY8_2X8 :: u32 where "MEDIA_BUS_FMT_VYUY8_2X8 = 0x2007"
definition MEDIA_BUS_FMT_YUYV8_2X8 :: u32 where "MEDIA_BUS_FMT_YUYV8_2X8 = 0x2008"
definition MEDIA_BUS_FMT_YVYU8_2X8 :: u32 where "MEDIA_BUS_FMT_YVYU8_2X8 = 0x2009"
definition MEDIA_BUS_FMT_SBGGR8_1X8 :: u32 where "MEDIA_BUS_FMT_SBGGR8_1X8 = 0x3001"

text \<open>\<^verbatim>\<open>videodev2.h\<close>, \<^verbatim>\<open>v4l2-subdev.h\<close>\<close>

definition V4L2_FIELD_NONE :: u32 where "V4L2_FIELD_NONE = 1"

definition V4L2_COLORSPACE_SMPTE240M :: u32 where "V4L2_COLORSPACE_SMPTE240M = 2"
definition V4L2_COLORSPACE_REC709 :: u32 where "V4L2_COLORSPACE_REC709 = 3"
definition V4L2_COLORSPACE_JPEG :: u32 where "V4L2_COLORSPACE_JPEG = 7"
definition V4L2_COLORSPACE_SRGB :: u32 where "V4L2_COLORSPACE_SRGB = 8"
definition V4L2_COLORSPACE_OPRGB :: u32 where "V4L2_COLORSPACE_OPRGB = 9"
definition V4L2_COLORSPACE_BT2020 :: u32 where "V4L2_COLORSPACE_BT2020 = 10"
definition V4L2_COLORSPACE_RAW :: u32 where "V4L2_COLORSPACE_RAW = 11"
definition V4L2_COLORSPACE_DCI_P3 :: u32 where "V4L2_COLORSPACE_DCI_P3 = 12"

definition V4L2_XFER_FUNC_709 :: u32 where "V4L2_XFER_FUNC_709 = 1"
definition V4L2_XFER_FUNC_SRGB :: u32 where "V4L2_XFER_FUNC_SRGB = 2"
definition V4L2_XFER_FUNC_OPRGB :: u32 where "V4L2_XFER_FUNC_OPRGB = 3"
definition V4L2_XFER_FUNC_SMPTE240M :: u32 where "V4L2_XFER_FUNC_SMPTE240M = 4"
definition V4L2_XFER_FUNC_NONE :: u32 where "V4L2_XFER_FUNC_NONE = 5"
definition V4L2_XFER_FUNC_DCI_P3 :: u32 where "V4L2_XFER_FUNC_DCI_P3 = 6"

definition V4L2_YCBCR_ENC_601 :: u32 where "V4L2_YCBCR_ENC_601 = 1"
definition V4L2_YCBCR_ENC_709 :: u32 where "V4L2_YCBCR_ENC_709 = 2"
definition V4L2_YCBCR_ENC_BT2020 :: u32 where "V4L2_YCBCR_ENC_BT2020 = 6"
definition V4L2_YCBCR_ENC_SMPTE240M :: u32 where "V4L2_YCBCR_ENC_SMPTE240M = 8"

definition V4L2_QUANTIZATION_FULL_RANGE :: u32 where "V4L2_QUANTIZATION_FULL_RANGE = 1"
definition V4L2_QUANTIZATION_LIM_RANGE :: u32 where "V4L2_QUANTIZATION_LIM_RANGE = 2"

definition V4L2_SUBDEV_FORMAT_TRY :: u32 where "V4L2_SUBDEV_FORMAT_TRY = 0"
definition V4L2_SUBDEV_FORMAT_ACTIVE :: u32 where "V4L2_SUBDEV_FORMAT_ACTIVE = 1"

definition V4L2_MAP_XFER_FUNC_DEFAULT :: "u32 \<Rightarrow> u32" where
  "V4L2_MAP_XFER_FUNC_DEFAULT colsp =
     (if colsp = V4L2_COLORSPACE_OPRGB then V4L2_XFER_FUNC_OPRGB
      else if colsp = V4L2_COLORSPACE_SMPTE240M then V4L2_XFER_FUNC_SMPTE240M
      else if colsp = V4L2_COLORSPACE_DCI_P3 then V4L2_XFER_FUNC_DCI_P3
      else if colsp = V4L2_COLORSPACE_RAW then V4L2_XFER_FUNC_NONE
      else if colsp = V4L2_COLORSPACE_SRGB \<or> colsp = V4L2_COLORSPACE_JPEG
        then V4L2_XFER_FUNC_SRGB
      else V4L2_XFER_FUNC_709)"

definition V4L2_MAP_YCBCR_ENC_DEFAULT :: "u32 \<Rightarrow> u32" where
  "V4L2_MAP_YCBCR_ENC_DEFAULT colsp =
     (if colsp = V4L2_COLORSPACE_REC709 \<or> colsp = V4L2_COLORSPACE_DCI_P3
        then V4L2_YCBCR_ENC_709
      else if colsp = V4L2_COLORSPACE_BT2020 then V4L2_YCBCR_ENC_BT2020
      else if colsp = V4L2_COLORSPACE_SMPTE240M then V4L2_YCBCR_ENC_SMPTE240M
      else V4L2_YCBCR_ENC_601)"

text \<open>The driver always passes \<^verbatim>\<open>is_rgb_or_hsv = true\<close>.\<close>

definition V4L2_MAP_QUANTIZATION_DEFAULT :: "bool \<Rightarrow> u32 \<Rightarrow> u32 \<Rightarrow> u32" where
  "V4L2_MAP_QUANTIZATION_DEFAULT is_rgb_or_hsv colsp ycbcr =
     (if is_rgb_or_hsv \<and> colsp = V4L2_COLORSPACE_BT2020 then V4L2_QUANTIZATION_LIM_RANGE
      else if is_rgb_or_hsv \<or> colsp = V4L2_COLORSPACE_JPEG then V4L2_QUANTIZATION_FULL_RANGE
      else V4L2_QUANTIZATION_LIM_RANGE)"

subsection \<open>Driver constants and register tables\<close>

definition GC2145_CHIP_ID :: int where "GC2145_CHIP_ID = 0x2145"

definition GC2145_REG_OUTPUT_FORMAT :: u8 where "GC2145_REG_OUTPUT_FORMAT = 0x84"
definition GC2145_REG_CHIP_ID_H :: u8 where "GC2145_REG_CHIP_ID_H = 0xF0"
definition GC2145_REG_CHIP_ID_L :: u8 where "GC2145_REG_CHIP_ID_L = 0xF1"
definition GC2145_REG_PAGE_SELECT :: u8 where "GC2145_REG_PAGE_SELECT = 0xFE"
definition GC2145_REG_NULL :: u8 where "GC2145_REG_NULL = 0xFF"

definition GC2145_OUTPUT_FMT_UYVY :: u8 where "GC2145_OUTPUT_FMT_UYVY = 0x00"
definition GC2145_OUTPUT_FMT_VYUY :: u8 where "GC2145_OUTPUT_FMT_VYUY = 0x01"
definition GC2145_OUTPUT_FMT_YUYV :: u8 where "GC2145_OUTPUT_FMT_YUYV = 0x02"
definition GC2145_OUTPUT_FMT_YVYU :: u8 where "GC2145_OUTPUT_FMT_YVYU = 0x03"
definition GC2145_OUTPUT_FMT_RGB :: u8 where "GC2145_OUTPUT_FMT_RGB = 0x06"
definition GC2145_OUTPUT_FMT_LSC :: u8 where "GC2145_OUTPUT_FMT_LSC = 0x19"

record gc2145_reg =
  addr :: u8
  val :: u8

text \<open>
  The register tables, with the preprocessor branches the source selects
  (\<^verbatim>\<open>#if 1\<close>) and without the rows it comments out.
\<close>

definition gc2145_init_regs :: "gc2145_reg list" where
  "gc2145_init_regs =
    [
     \<lparr>addr = 0xfe, val = 0xf0\<rparr>, \<lparr>addr = 0xfe, val = 0xf0\<rparr>, \<lparr>addr = 0xfe, val = 0xf0\<rparr>, \<lparr>addr = 0xfc, val = 0x06\<rparr>,
     \<lparr>addr = 0xf6, val = 0x00\<rparr>, \<lparr>addr = 0xf7, val = 0x1d\<rparr>, \<lparr>addr = 0xf8, val = 0x83\<rparr>, \<lparr>addr = 0xfa, val = 0x00\<rparr>,
     \<lparr>addr = 0xf9, val = 0xfe\<rparr>, \<lparr>addr = 0xf2, val = 0x00\<rparr>, \<lparr>addr = 0xfe, val = 0x00\<rparr>, \<lparr>addr = 0x03, val = 0x04\<rparr>,
     \<lparr>addr = 0x04, val = 0xe2\<rparr>, \<lparr>addr = 0x09, val = 0x00\<rparr>, \<lparr>addr = 0x0a, val = 0x00\<rparr>, \<lparr>addr = 0x0b, val = 0x00\<rparr>,
     \<lparr>addr = 0x0c, val = 0x00\<rparr>, \<lparr>addr = 0x0d, val = 0x04\<rparr>, \<lparr>addr = 0x0e, val = 0xc0\<rparr>, \<lparr>addr = 0x0f, val = 0x06\<rparr>,
     \<lparr>addr = 0x10, val = 0x52\<rparr>, \<lparr>addr = 0x12, val = 0x2e\<rparr>, \<lparr>addr = 0x17, val = 0x17\<rparr>, \<lparr>addr = 0x18, val = 0x22\<rparr>,
     \<lparr>addr = 0x19, val = 0x0e\<rparr>, \<lparr>addr = 0x1a, val = 0x01\<rparr>, \<lparr>addr = 0x1b, val = 0x4b\<rparr>, \<lparr>addr = 0x1c, val = 0x07\<rparr>,
     \<lparr>addr = 0x1d, val = 0x10\<rparr>, \<lparr>addr = 0x1e, val = 0x88\<rparr>, \<lparr>addr = 0x1f, val = 0x78\<rparr>, \<lparr>addr = 0x20, val = 0x03\<rparr>,
     \<lparr>addr = 0x21, val = 0x40\<rparr>, \<lparr>addr = 0x22, val = 0xa0\<rparr>, \<lparr>addr = 0x24, val = 0x16\<rparr>, \<lparr>addr = 0x25, val = 0x01\<rparr>,
     \<lparr>addr = 0x26, val = 0x10\<rparr>, \<lparr>addr = 0x2d, val = 0x60\<rparr>, \<lparr>addr = 0x30, val = 0x01\<rparr>, \<lparr>addr = 0x31, val = 0x90\<rparr>,
     \<lparr>addr = 0x33, val = 0x06\<rparr>, \<lparr>addr = 0x34, val = 0x01\<rparr>, \<lparr>addr = 0xfe, val = 0x00\<rparr>, \<lparr>addr = 0x80, val = 0x7f\<rparr>,
     \<lparr>addr = 0x81, val = 0x26\<rparr>, \<lparr>addr = 0x82, val = 0xfa\<rparr>, \<lparr>addr = 0x83, val = 0x00\<rparr>, \<lparr>addr = 0x84, val = 0x02\<rparr>,
     \<lparr>addr = 0x86, val = 0x03\<rparr>, \<lparr>addr = 0x88, val = 0x03\<rparr>, \<lparr>addr = 0x89, val = 0x03\<rparr>, \<lparr>addr = 0x85, val = 0x08\<rparr>,
     \<lparr>addr = 0x8a, val = 0x00\<rparr>, \<lparr>addr = 0x8b, val = 0x00\<rparr>, \<lparr>addr = 0xb0, val = 0x55\<rparr>, \<lparr>addr = 0xc3, val = 0x00\<rparr>,
     \<lparr>addr = 0xc4, val = 0x80\<rparr>, \<lparr>addr = 0xc5, val = 0x90\<rparr>, \<lparr>addr = 0xc6, val = 0x3b\<rparr>, \<lparr>addr = 0xc7, val = 0x46\<rparr>,
     \<lparr>addr = 0xec, val = 0x06\<rparr>, \<lparr>addr = 0xed, val = 0x04\<rparr>, \<lparr>addr = 0xee, val = 0x60\<rparr>, \<lparr>addr = 0xef, val = 0x90\<rparr>,
     \<lparr>addr = 0xb6, val = 0x01\<rparr>, \<lparr>addr = 0x90, val = 0x01\<rparr>, \<lparr>addr = 0x91, val = 0x00\<rparr>, \<lparr>addr = 0x92, val = 0x00\<rparr>,
     \<lparr>addr = 0x93, val = 0x00\<rparr>, \<lparr>addr = 0x94, val = 0x00\<rparr>, \<lparr>addr = 0x95, val = 0x04\<rparr>, \<lparr>addr = 0x96, val = 0xb0\<rparr>,
     \<lparr>addr = 0x97, val = 0x06\<rparr>, \<lparr>addr = 0x98, val = 0x40\<rparr>, \<lparr>addr = 0xfe, val = 0x00\<rparr>, \<lparr>addr = 0x40, val = 0x42\<rparr>,
     \<lparr>addr = 0x41, val = 0x00\<rparr>, \<lparr>addr = 0x43, val = 0x5b\<rparr>, \<lparr>addr = 0x5e, val = 0x00\<rparr>, \<lparr>addr = 0x5f, val = 0x00\<rparr>,
     \<lparr>addr = 0x60, val = 0x00\<rparr>, \<lparr>addr = 0x61, val = 0x00\<rparr>, \<lparr>addr = 0x62, val = 0x00\<rparr>, \<lparr>addr = 0x63, val = 0x00\<rparr>,
     \<lparr>addr = 0x64, val = 0x00\<rparr>, \<lparr>addr = 0x65, val = 0x00\<rparr>, \<lparr>addr = 0x66, val = 0x20\<rparr>, \<lparr>addr = 0x67, val = 0x20\<rparr>,
     \<lparr>addr = 0x68, val = 0x20\<rparr>, \<lparr>addr = 0x69, val = 0x20\<rparr>, \<lparr>addr = 0x76, val = 0x00\<rparr>, \<lparr>addr = 0x6a, val = 0x08\<rparr>,
     \<lparr>addr = 0x6b, val = 0x08\<rparr>, \<lparr>addr = 0x6c, val = 0x08\<rparr>, \<lparr>addr = 0x6d, val = 0x08\<rparr>, \<lparr>addr = 0x6e, val = 0x08\<rparr>,
     \<lparr>addr = 0x6f, val = 0x08\<rparr>, \<lparr>addr = 0x70, val = 0x08\<rparr>, \<lparr>addr = 0x71, val = 0x08\<rparr>, \<lparr>addr = 0x76, val = 0x00\<rparr>,
     \<lparr>addr = 0x72, val = 0xf0\<rparr>, \<lparr>addr = 0x7e, val = 0x3c\<rparr>, \<lparr>addr = 0x7f, val = 0x00\<rparr>, \<lparr>addr = 0xfe, val = 0x02\<rparr>,
     \<lparr>addr = 0x48, val = 0x15\<rparr>, \<lparr>addr = 0x49, val = 0x00\<rparr>, \<lparr>addr = 0x4b, val = 0x0b\<rparr>, \<lparr>addr = 0xfe, val = 0x00\<rparr>,
     \<lparr>addr = 0xfe, val = 0x01\<rparr>, \<lparr>addr = 0x01, val = 0x04\<rparr>, \<lparr>addr = 0x02, val = 0xc0\<rparr>, \<lparr>addr = 0x03, val = 0x04\<rparr>,
     \<lparr>addr = 0x04, val = 0x90\<rparr>, \<lparr>addr = 0x05, val = 0x30\<rparr>, \<lparr>addr = 0x06, val = 0x90\<rparr>, \<lparr>addr = 0x07, val = 0x30\<rparr>,
     \<lparr>addr = 0x08, val = 0x80\<rparr>, \<lparr>addr = 0x09, val = 0x00\<rparr>, \<lparr>addr = 0x0a, val = 0x82\<rparr>, \<lparr>addr = 0x0b, val = 0x11\<rparr>,
     \<lparr>addr = 0x0c, val = 0x10\<rparr>, \<lparr>addr = 0x11, val = 0x10\<rparr>, \<lparr>addr = 0x13, val = 0x7b\<rparr>, \<lparr>addr = 0x17, val = 0x00\<rparr>,
     \<lparr>addr = 0x1c, val = 0x11\<rparr>, \<lparr>addr = 0x1e, val = 0x61\<rparr>, \<lparr>addr = 0x1f, val = 0x35\<rparr>, \<lparr>addr = 0x20, val = 0x40\<rparr>,
     \<lparr>addr = 0x22, val = 0x40\<rparr>, \<lparr>addr = 0x23, val = 0x20\<rparr>, \<lparr>addr = 0xfe, val = 0x02\<rparr>, \<lparr>addr = 0x0f, val = 0x04\<rparr>,
     \<lparr>addr = 0xfe, val = 0x01\<rparr>, \<lparr>addr = 0x12, val = 0x35\<rparr>, \<lparr>addr = 0x15, val = 0xb0\<rparr>, \<lparr>addr = 0x10, val = 0x31\<rparr>,
     \<lparr>addr = 0x3e, val = 0x28\<rparr>, \<lparr>addr = 0x3f, val = 0xb0\<rparr>, \<lparr>addr = 0x40, val = 0x90\<rparr>, \<lparr>addr = 0x41, val = 0x0f\<rparr>,
     \<lparr>addr = 0xfe, val = 0x02\<rparr>, \<lparr>addr = 0x90, val = 0x6c\<rparr>, \<lparr>addr = 0x91, val = 0x03\<rparr>, \<lparr>addr = 0x92, val = 0xcb\<rparr>,
     \<lparr>addr = 0x94, val = 0x33\<rparr>, \<lparr>addr = 0x95, val = 0x84\<rparr>, \<lparr>addr = 0x97, val = 0x65\<rparr>, \<lparr>addr = 0xa2, val = 0x11\<rparr>,
     \<lparr>addr = 0xfe, val = 0x00\<rparr>, \<lparr>addr = 0xfe, val = 0x02\<rparr>, \<lparr>addr = 0x80, val = 0xc1\<rparr>, \<lparr>addr = 0x81, val = 0x08\<rparr>,
     \<lparr>addr = 0x82, val = 0x05\<rparr>, \<lparr>addr = 0x83, val = 0x08\<rparr>, \<lparr>addr = 0x84, val = 0x0a\<rparr>, \<lparr>addr = 0x86, val = 0xf0\<rparr>,
     \<lparr>addr = 0x87, val = 0x50\<rparr>, \<lparr>addr = 0x88, val = 0x15\<rparr>, \<lparr>addr = 0x89, val = 0xb0\<rparr>, \<lparr>addr = 0x8a, val = 0x30\<rparr>,
     \<lparr>addr = 0x8b, val = 0x10\<rparr>, \<lparr>addr = 0xfe, val = 0x01\<rparr>, \<lparr>addr = 0x21, val = 0x04\<rparr>, \<lparr>addr = 0xfe, val = 0x02\<rparr>,
     \<lparr>addr = 0xa3, val = 0x50\<rparr>, \<lparr>addr = 0xa4, val = 0x20\<rparr>, \<lparr>addr = 0xa5, val = 0x40\<rparr>, \<lparr>addr = 0xa6, val = 0x80\<rparr>,
     \<lparr>addr = 0xab, val = 0x40\<rparr>, \<lparr>addr = 0xae, val = 0x0c\<rparr>, \<lparr>addr = 0xb3, val = 0x46\<rparr>, \<lparr>addr = 0xb4, val = 0x64\<rparr>,
     \<lparr>addr = 0xb6, val = 0x38\<rparr>, \<lparr>addr = 0xb7, val = 0x01\<rparr>, \<lparr>addr = 0xb9, val = 0x2b\<rparr>, \<lparr>addr = 0x3c, val = 0x04\<rparr>,
     \<lparr>addr = 0x3d, val = 0x15\<rparr>, \<lparr>addr = 0x4b, val = 0x06\<rparr>, \<lparr>addr = 0x4c, val = 0x20\<rparr>, \<lparr>addr = 0xfe, val = 0x00\<rparr>,
     \<lparr>addr = 0xfe, val = 0x02\<rparr>, \<lparr>addr = 0x10, val = 0x09\<rparr>, \<lparr>addr = 0x11, val = 0x0d\<rparr>, \<lparr>addr = 0x12, val = 0x13\<rparr>,
     \<lparr>addr = 0x13, val = 0x19\<rparr>, \<lparr>addr = 0x14, val = 0x27\<rparr>, \<lparr>addr = 0x15, val = 0x37\<rparr>, \<lparr>addr = 0x16, val = 0x45\<rparr>,
     \<lparr>addr = 0x17, val = 0x53\<rparr>, \<lparr>addr = 0x18, val = 0x69\<rparr>, \<lparr>addr = 0x19, val = 0x7d\<rparr>, \<lparr>addr = 0x1a, val = 0x8f\<rparr>,
     \<lparr>addr = 0x1b, val = 0x9d\<rparr>, \<lparr>addr = 0x1c, val = 0xa9\<rparr>, \<lparr>addr = 0x1d, val = 0xbd\<rparr>, \<lparr>addr = 0x1e, val = 0xcd\<rparr>,
     \<lparr>addr = 0x1f, val = 0xd9\<rparr>, \<lparr>addr = 0x20, val = 0xe3\<rparr>, \<lparr>addr = 0x21, val = 0xea\<rparr>, \<lparr>addr = 0x22, val = 0xef\<rparr>,
     \<lparr>addr = 0x23, val = 0xf5\<rparr>, \<lparr>addr = 0x24, val = 0xf9\<rparr>, \<lparr>addr = 0x25, val = 0xff\<rparr>, \<lparr>addr = 0xfe, val = 0x00\<rparr>,
     \<lparr>addr = 0xc6, val = 0x20\<rparr>, \<lparr>addr = 0xc7, val = 0x2b\<rparr>, \<lparr>addr = 0xfe, val = 0x02\<rparr>, \<lparr>addr = 0x26, val = 0x0f\<rparr>,
     \<lparr>addr = 0x27, val = 0x14\<rparr>, \<lparr>addr = 0x28, val = 0x19\<rparr>, \<lparr>addr = 0x29, val = 0x1e\<rparr>, \<lparr>addr = 0x2a, val = 0x27\<rparr>,
     \<lparr>addr = 0x2b, val = 0x33\<rparr>, \<lparr>addr = 0x2c, val = 0x3b\<rparr>, \<lparr>addr = 0x2d, val = 0x45\<rparr>, \<lparr>addr = 0x2e, val = 0x59\<rparr>,
     \<lparr>addr = 0x2f, val = 0x69\<rparr>, \<lparr>addr = 0x30, val = 0x7c\<rparr>, \<lparr>addr = 0x31, val = 0x89\<rparr>, \<lparr>addr = 0x32, val = 0x98\<rparr>,
     \<lparr>addr = 0x33, val = 0xae\<rparr>, \<lparr>addr = 0x34, val = 0xc0\<rparr>, \<lparr>addr = 0x35, val = 0xcf\<rparr>, \<lparr>addr = 0x36, val = 0xda\<rparr>,
     \<lparr>addr = 0x37, val = 0xe2\<rparr>, \<lparr>addr = 0x38, val = 0xe9\<rparr>, \<lparr>addr = 0x39, val = 0xf3\<rparr>, \<lparr>addr = 0x3a, val = 0xf9\<rparr>,
     \<lparr>addr = 0x3b, val = 0xff\<rparr>, \<lparr>addr = 0xfe, val = 0x02\<rparr>, \<lparr>addr = 0xd1, val = 0x32\<rparr>, \<lparr>addr = 0xd2, val = 0x32\<rparr>,
     \<lparr>addr = 0xd3, val = 0x40\<rparr>, \<lparr>addr = 0xd6, val = 0xf0\<rparr>, \<lparr>addr = 0xd7, val = 0x10\<rparr>, \<lparr>addr = 0xd8, val = 0xda\<rparr>,
     \<lparr>addr = 0xdd, val = 0x14\<rparr>, \<lparr>addr = 0xde, val = 0x86\<rparr>, \<lparr>addr = 0xed, val = 0x80\<rparr>, \<lparr>addr = 0xee, val = 0x00\<rparr>,
     \<lparr>addr = 0xef, val = 0x3f\<rparr>, \<lparr>addr = 0xd8, val = 0xd8\<rparr>, \<lparr>addr = 0xfe, val = 0x01\<rparr>, \<lparr>addr = 0x9f, val = 0x40\<rparr>,
     \<lparr>addr = 0xfe, val = 0x01\<rparr>, \<lparr>addr = 0xc2, val = 0x14\<rparr>, \<lparr>addr = 0xc3, val = 0x0d\<rparr>, \<lparr>addr = 0xc4, val = 0x0c\<rparr>,
     \<lparr>addr = 0xc8, val = 0x15\<rparr>, \<lparr>addr = 0xc9, val = 0x0d\<rparr>, \<lparr>addr = 0xca, val = 0x0a\<rparr>, \<lparr>addr = 0xbc, val = 0x24\<rparr>,
     \<lparr>addr = 0xbd, val = 0x10\<rparr>, \<lparr>addr = 0xbe, val = 0x0b\<rparr>, \<lparr>addr = 0xb6, val = 0x25\<rparr>, \<lparr>addr = 0xb7, val = 0x16\<rparr>,
     \<lparr>addr = 0xb8, val = 0x15\<rparr>, \<lparr>addr = 0xc5, val = 0x00\<rparr>, \<lparr>addr = 0xc6, val = 0x00\<rparr>, \<lparr>addr = 0xc7, val = 0x00\<rparr>,
     \<lparr>addr = 0xcb, val = 0x00\<rparr>, \<lparr>addr = 0xcc, val = 0x00\<rparr>, \<lparr>addr = 0xcd, val = 0x00\<rparr>, \<lparr>addr = 0xbf, val = 0x07\<rparr>,
     \<lparr>addr = 0xc0, val = 0x00\<rparr>, \<lparr>addr = 0xc1, val = 0x00\<rparr>, \<lparr>addr = 0xb9, val = 0x00\<rparr>, \<lparr>addr = 0xba, val = 0x00\<rparr>,
     \<lparr>addr = 0xbb, val = 0x00\<rparr>, \<lparr>addr = 0xaa, val = 0x01\<rparr>, \<lparr>addr = 0xab, val = 0x01\<rparr>, \<lparr>addr = 0xac, val = 0x00\<rparr>,
     \<lparr>addr = 0xad, val = 0x05\<rparr>, \<lparr>addr = 0xae, val = 0x06\<rparr>, \<lparr>addr = 0xaf, val = 0x0e\<rparr>, \<lparr>addr = 0xb0, val = 0x0b\<rparr>,
     \<lparr>addr = 0xb1, val = 0x07\<rparr>, \<lparr>addr = 0xb2, val = 0x06\<rparr>, \<lparr>addr = 0xb3, val = 0x17\<rparr>, \<lparr>addr = 0xb4, val = 0x0e\<rparr>,
     \<lparr>addr = 0xb5, val = 0x0e\<rparr>, \<lparr>addr = 0xd0, val = 0x09\<rparr>, \<lparr>addr = 0xd1, val = 0x00\<rparr>, \<lparr>addr = 0xd2, val = 0x00\<rparr>,
     \<lparr>addr = 0xd6, val = 0x08\<rparr>, \<lparr>addr = 0xd7, val = 0x00\<rparr>, \<lparr>addr = 0xd8, val = 0x00\<rparr>, \<lparr>addr = 0xd9, val = 0x00\<rparr>,
     \<lparr>addr = 0xda, val = 0x00\<rparr>, \<lparr>addr = 0xdb, val = 0x00\<rparr>, \<lparr>addr = 0xd3, val = 0x0a\<rparr>, \<lparr>addr = 0xd4, val = 0x00\<rparr>,
     \<lparr>addr = 0xd5, val = 0x00\<rparr>, \<lparr>addr = 0xa4, val = 0x00\<rparr>, \<lparr>addr = 0xa5, val = 0x00\<rparr>, \<lparr>addr = 0xa6, val = 0x77\<rparr>,
     \<lparr>addr = 0xa7, val = 0x77\<rparr>, \<lparr>addr = 0xa8, val = 0x77\<rparr>, \<lparr>addr = 0xa9, val = 0x77\<rparr>, \<lparr>addr = 0xa1, val = 0x80\<rparr>,
     \<lparr>addr = 0xa2, val = 0x80\<rparr>, \<lparr>addr = 0xfe, val = 0x01\<rparr>, \<lparr>addr = 0xdf, val = 0x0d\<rparr>, \<lparr>addr = 0xdc, val = 0x25\<rparr>,
     \<lparr>addr = 0xdd, val = 0x30\<rparr>, \<lparr>addr = 0xe0, val = 0x77\<rparr>, \<lparr>addr = 0xe1, val = 0x80\<rparr>, \<lparr>addr = 0xe2, val = 0x77\<rparr>,
     \<lparr>addr = 0xe3, val = 0x90\<rparr>, \<lparr>addr = 0xe6, val = 0x90\<rparr>, \<lparr>addr = 0xe7, val = 0xa0\<rparr>, \<lparr>addr = 0xe8, val = 0x90\<rparr>,
     \<lparr>addr = 0xe9, val = 0xa0\<rparr>, \<lparr>addr = 0xfe, val = 0x00\<rparr>, \<lparr>addr = 0xfe, val = 0x01\<rparr>, \<lparr>addr = 0x4f, val = 0x00\<rparr>,
     \<lparr>addr = 0x4f, val = 0x00\<rparr>, \<lparr>addr = 0x4b, val = 0x01\<rparr>, \<lparr>addr = 0x4f, val = 0x00\<rparr>, \<lparr>addr = 0x4c, val = 0x01\<rparr>,
     \<lparr>addr = 0x4d, val = 0x71\<rparr>, \<lparr>addr = 0x4e, val = 0x01\<rparr>, \<lparr>addr = 0x4c, val = 0x01\<rparr>, \<lparr>addr = 0x4d, val = 0x91\<rparr>,
     \<lparr>addr = 0x4e, val = 0x01\<rparr>, \<lparr>addr = 0x4c, val = 0x01\<rparr>, \<lparr>addr = 0x4d, val = 0x70\<rparr>, \<lparr>addr = 0x4e, val = 0x01\<rparr>,
     \<lparr>addr = 0x4c, val = 0x01\<rparr>, \<lparr>addr = 0x4d, val = 0x90\<rparr>, \<lparr>addr = 0x4e, val = 0x02\<rparr>, \<lparr>addr = 0x4c, val = 0x01\<rparr>,
     \<lparr>addr = 0x4d, val = 0xb0\<rparr>, \<lparr>addr = 0x4e, val = 0x02\<rparr>, \<lparr>addr = 0x4c, val = 0x01\<rparr>, \<lparr>addr = 0x4d, val = 0x8f\<rparr>,
     \<lparr>addr = 0x4e, val = 0x02\<rparr>, \<lparr>addr = 0x4c, val = 0x01\<rparr>, \<lparr>addr = 0x4d, val = 0x6f\<rparr>, \<lparr>addr = 0x4e, val = 0x02\<rparr>,
     \<lparr>addr = 0x4c, val = 0x01\<rparr>, \<lparr>addr = 0x4d, val = 0xaf\<rparr>, \<lparr>addr = 0x4e, val = 0x02\<rparr>, \<lparr>addr = 0x4c, val = 0x01\<rparr>,
     \<lparr>addr = 0x4d, val = 0xd0\<rparr>, \<lparr>addr = 0x4e, val = 0x02\<rparr>, \<lparr>addr = 0x4c, val = 0x01\<rparr>, \<lparr>addr = 0x4d, val = 0xf0\<rparr>,
     \<lparr>addr = 0x4e, val = 0x02\<rparr>, \<lparr>addr = 0x4c, val = 0x01\<rparr>, \<lparr>addr = 0x4d, val = 0xcf\<rparr>, \<lparr>addr = 0x4e, val = 0x02\<rparr>,
     \<lparr>addr = 0x4c, val = 0x01\<rparr>, \<lparr>addr = 0x4d, val = 0xef\<rparr>, \<lparr>addr = 0x4e, val = 0x02\<rparr>, \<lparr>addr = 0x4c, val = 0x01\<rparr>,
     \<lparr>addr = 0x4d, val = 0x6e\<rparr>, \<lparr>addr = 0x4e, val = 0x03\<rparr>, \<lparr>addr = 0x4c, val = 0x01\<rparr>, \<lparr>addr = 0x4d, val = 0x8e\<rparr>,
     \<lparr>addr = 0x4e, val = 0x03\<rparr>, \<lparr>addr = 0x4c, val = 0x01\<rparr>, \<lparr>addr = 0x4d, val = 0xae\<rparr>, \<lparr>addr = 0x4e, val = 0x03\<rparr>,
     \<lparr>addr = 0x4c, val = 0x01\<rparr>, \<lparr>addr = 0x4d, val = 0xce\<rparr>, \<lparr>addr = 0x4e, val = 0x03\<rparr>, \<lparr>addr = 0x4c, val = 0x01\<rparr>,
     \<lparr>addr = 0x4d, val = 0x4d\<rparr>, \<lparr>addr = 0x4e, val = 0x03\<rparr>, \<lparr>addr = 0x4c, val = 0x01\<rparr>, \<lparr>addr = 0x4d, val = 0x6d\<rparr>,
     \<lparr>addr = 0x4e, val = 0x03\<rparr>, \<lparr>addr = 0x4c, val = 0x01\<rparr>, \<lparr>addr = 0x4d, val = 0x8d\<rparr>, \<lparr>addr = 0x4e, val = 0x03\<rparr>,
     \<lparr>addr = 0x4c, val = 0x01\<rparr>, \<lparr>addr = 0x4d, val = 0xad\<rparr>, \<lparr>addr = 0x4e, val = 0x03\<rparr>, \<lparr>addr = 0x4c, val = 0x01\<rparr>,
     \<lparr>addr = 0x4d, val = 0xcd\<rparr>, \<lparr>addr = 0x4e, val = 0x03\<rparr>, \<lparr>addr = 0x4c, val = 0x01\<rparr>, \<lparr>addr = 0x4d, val = 0x4c\<rparr>,
     \<lparr>addr = 0x4e, val = 0x03\<rparr>, \<lparr>addr = 0x4c, val = 0x01\<rparr>, \<lparr>addr = 0x4d, val = 0x6c\<rparr>, \<lparr>addr = 0x4e, val = 0x03\<rparr>,
     \<lparr>addr = 0x4c, val = 0x01\<rparr>, \<lparr>addr = 0x4d, val = 0x8c\<rparr>, \<lparr>addr = 0x4e, val = 0x03\<rparr>, \<lparr>addr = 0x4c, val = 0x01\<rparr>,
     \<lparr>addr = 0x4d, val = 0xac\<rparr>, \<lparr>addr = 0x4e, val = 0x03\<rparr>, \<lparr>addr = 0x4c, val = 0x01\<rparr>, \<lparr>addr = 0x4d, val = 0xcc\<rparr>,
     \<lparr>addr = 0x4e, val = 0x03\<rparr>, \<lparr>addr = 0x4c, val = 0x01\<rparr>, \<lparr>addr = 0x4d, val = 0xcb\<rparr>, \<lparr>addr = 0x4e, val = 0x03\<rparr>,
     \<lparr>addr = 0x4c, val = 0x01\<rparr>, \<lparr>addr = 0x4d, val = 0x4b\<rparr>, \<lparr>addr = 0x4e, val = 0x03\<rparr>, \<lparr>addr = 0x4c, val = 0x01\<rparr>,
     \<lparr>addr = 0x4d, val = 0x6b\<rparr>, \<lparr>addr = 0x4e, val = 0x03\<rparr>, \<lparr>addr = 0x4c, val = 0x01\<rparr>, \<lparr>addr = 0x4d, val = 0x8b\<rparr>,
     \<lparr>addr = 0x4e, val = 0x03\<rparr>, \<lparr>addr = 0x4c, val = 0x01\<rparr>, \<lparr>addr = 0x4d, val = 0xab\<rparr>, \<lparr>addr = 0x4e, val = 0x03\<rparr>,
     \<lparr>addr = 0x4c, val = 0x01\<rparr>, \<lparr>addr = 0x4d, val = 0x8a\<rparr>, \<lparr>addr = 0x4e, val = 0x04\<rparr>, \<lparr>addr = 0x4c, val = 0x01\<rparr>,
     \<lparr>addr = 0x4d, val = 0xaa\<rparr>, \<lparr>addr = 0x4e, val = 0x04\<rparr>, \<lparr>addr = 0x4c, val = 0x01\<rparr>, \<lparr>addr = 0x4d, val = 0xca\<rparr>,
     \<lparr>addr = 0x4e, val = 0x04\<rparr>, \<lparr>addr = 0x4c, val = 0x01\<rparr>, \<lparr>addr = 0x4d, val = 0xca\<rparr>, \<lparr>addr = 0x4e, val = 0x04\<rparr>,
     \<lparr>addr = 0x4c, val = 0x01\<rparr>, \<lparr>addr = 0x4d, val = 0xc9\<rparr>, \<lparr>addr = 0x4e, val = 0x04\<rparr>, \<lparr>addr = 0x4c, val = 0x01\<rparr>,
     \<lparr>addr = 0x4d, val = 0x8a\<rparr>, \<lparr>addr = 0x4e, val = 0x04\<rparr>, \<lparr>addr = 0x4c, val = 0x01\<rparr>, \<lparr>addr = 0x4d, val = 0x89\<rparr>,
     \<lparr>addr = 0x4e, val = 0x04\<rparr>, \<lparr>addr = 0x4c, val = 0x01\<rparr>, \<lparr>addr = 0x4d, val = 0xa9\<rparr>, \<lparr>addr = 0x4e, val = 0x04\<rparr>,
     \<lparr>addr = 0x4c, val = 0x02\<rparr>, \<lparr>addr = 0x4d, val = 0x0b\<rparr>, \<lparr>addr = 0x4e, val = 0x05\<rparr>, \<lparr>addr = 0x4c, val = 0x02\<rparr>,
     \<lparr>addr = 0x4d, val = 0x0a\<rparr>, \<lparr>addr = 0x4e, val = 0x05\<rparr>, \<lparr>addr = 0x4c, val = 0x01\<rparr>, \<lparr>addr = 0x4d, val = 0xeb\<rparr>,
     \<lparr>addr = 0x4e, val = 0x05\<rparr>, \<lparr>addr = 0x4c, val = 0x01\<rparr>, \<lparr>addr = 0x4d, val = 0xea\<rparr>, \<lparr>addr = 0x4e, val = 0x05\<rparr>,
     \<lparr>addr = 0x4c, val = 0x02\<rparr>, \<lparr>addr = 0x4d, val = 0x09\<rparr>, \<lparr>addr = 0x4e, val = 0x05\<rparr>, \<lparr>addr = 0x4c, val = 0x02\<rparr>,
     \<lparr>addr = 0x4d, val = 0x29\<rparr>, \<lparr>addr = 0x4e, val = 0x05\<rparr>, \<lparr>addr = 0x4c, val = 0x02\<rparr>, \<lparr>addr = 0x4d, val = 0x2a\<rparr>,
     \<lparr>addr = 0x4e, val = 0x05\<rparr>, \<lparr>addr = 0x4c, val = 0x02\<rparr>, \<lparr>addr = 0x4d, val = 0x4a\<rparr>, \<lparr>addr = 0x4e, val = 0x05\<rparr>,
     \<lparr>addr = 0x4c, val = 0x02\<rparr>, \<lparr>addr = 0x4d, val = 0x8a\<rparr>, \<lparr>addr = 0x4e, val = 0x06\<rparr>, \<lparr>addr = 0x4c, val = 0x02\<rparr>,
     \<lparr>addr = 0x4d, val = 0x49\<rparr>, \<lparr>addr = 0x4e, val = 0x06\<rparr>, \<lparr>addr = 0x4c, val = 0x02\<rparr>, \<lparr>addr = 0x4d, val = 0x69\<rparr>,
     \<lparr>addr = 0x4e, val = 0x06\<rparr>, \<lparr>addr = 0x4c, val = 0x02\<rparr>, \<lparr>addr = 0x4d, val = 0x89\<rparr>, \<lparr>addr = 0x4e, val = 0x06\<rparr>,
     \<lparr>addr = 0x4c, val = 0x02\<rparr>, \<lparr>addr = 0x4d, val = 0xa9\<rparr>, \<lparr>addr = 0x4e, val = 0x06\<rparr>, \<lparr>addr = 0x4c, val = 0x02\<rparr>,
     \<lparr>addr = 0x4d, val = 0x48\<rparr>, \<lparr>addr = 0x4e, val = 0x06\<rparr>, \<lparr>addr = 0x4c, val = 0x02\<rparr>, \<lparr>addr = 0x4d, val = 0x68\<rparr>,
     \<lparr>addr = 0x4e, val = 0x06\<rparr>, \<lparr>addr = 0x4c, val = 0x02\<rparr>, \<lparr>addr = 0x4d, val = 0x69\<rparr>, \<lparr>addr = 0x4e, val = 0x06\<rparr>,
     \<lparr>addr = 0x4c, val = 0x02\<rparr>, \<lparr>addr = 0x4d, val = 0xca\<rparr>, \<lparr>addr = 0x4e, val = 0x07\<rparr>, \<lparr>addr = 0x4c, val = 0x02\<rparr>,
     \<lparr>addr = 0x4d, val = 0xc9\<rparr>, \<lparr>addr = 0x4e, val = 0x07\<rparr>, \<lparr>addr = 0x4c, val = 0x02\<rparr>, \<lparr>addr = 0x4d, val = 0xe9\<rparr>,
     \<lparr>addr = 0x4e, val = 0x07\<rparr>, \<lparr>addr = 0x4c, val = 0x03\<rparr>, \<lparr>addr = 0x4d, val = 0x09\<rparr>, \<lparr>addr = 0x4e, val = 0x07\<rparr>,
     \<lparr>addr = 0x4c, val = 0x02\<rparr>, \<lparr>addr = 0x4d, val = 0xc8\<rparr>, \<lparr>addr = 0x4e, val = 0x07\<rparr>, \<lparr>addr = 0x4c, val = 0x02\<rparr>,
     \<lparr>addr = 0x4d, val = 0xe8\<rparr>, \<lparr>addr = 0x4e, val = 0x07\<rparr>, \<lparr>addr = 0x4c, val = 0x02\<rparr>, \<lparr>addr = 0x4d, val = 0xa7\<rparr>,
     \<lparr>addr = 0x4e, val = 0x07\<rparr>, \<lparr>addr = 0x4c, val = 0x02\<rparr>, \<lparr>addr = 0x4d, val = 0xc7\<rparr>, \<lparr>addr = 0x4e, val = 0x07\<rparr>,
     \<lparr>addr = 0x4c, val = 0x02\<rparr>, \<lparr>addr = 0x4d, val = 0xe7\<rparr>, \<lparr>addr = 0x4e, val = 0x07\<rparr>, \<lparr>addr = 0x4c, val = 0x03\<rparr>,
     \<lparr>addr = 0x4d, val = 0x07\<rparr>, \<lparr>addr = 0x4e, val = 0x07\<rparr>, \<lparr>addr = 0x4f, val = 0x01\<rparr>, \<lparr>addr = 0x50, val = 0x80\<rparr>,
     \<lparr>addr = 0x51, val = 0xa8\<rparr>, \<lparr>addr = 0x52, val = 0x47\<rparr>, \<lparr>addr = 0x53, val = 0x38\<rparr>, \<lparr>addr = 0x54, val = 0xc7\<rparr>,
     \<lparr>addr = 0x56, val = 0x0e\<rparr>, \<lparr>addr = 0x58, val = 0x08\<rparr>, \<lparr>addr = 0x5b, val = 0x00\<rparr>, \<lparr>addr = 0x5c, val = 0x74\<rparr>,
     \<lparr>addr = 0x5d, val = 0x8b\<rparr>, \<lparr>addr = 0x61, val = 0xdb\<rparr>, \<lparr>addr = 0x62, val = 0xb8\<rparr>, \<lparr>addr = 0x63, val = 0x86\<rparr>,
     \<lparr>addr = 0x64, val = 0xc0\<rparr>, \<lparr>addr = 0x65, val = 0x04\<rparr>, \<lparr>addr = 0x67, val = 0xa8\<rparr>, \<lparr>addr = 0x68, val = 0xb0\<rparr>,
     \<lparr>addr = 0x69, val = 0x00\<rparr>, \<lparr>addr = 0x6a, val = 0xa8\<rparr>, \<lparr>addr = 0x6b, val = 0xb0\<rparr>, \<lparr>addr = 0x6c, val = 0xaf\<rparr>,
     \<lparr>addr = 0x6d, val = 0x8b\<rparr>, \<lparr>addr = 0x6e, val = 0x50\<rparr>, \<lparr>addr = 0x6f, val = 0x18\<rparr>, \<lparr>addr = 0x73, val = 0xf0\<rparr>,
     \<lparr>addr = 0x70, val = 0x0d\<rparr>, \<lparr>addr = 0x71, val = 0x60\<rparr>, \<lparr>addr = 0x72, val = 0x80\<rparr>, \<lparr>addr = 0x74, val = 0x01\<rparr>,
     \<lparr>addr = 0x75, val = 0x01\<rparr>, \<lparr>addr = 0x7f, val = 0x0c\<rparr>, \<lparr>addr = 0x76, val = 0x70\<rparr>, \<lparr>addr = 0x77, val = 0x58\<rparr>,
     \<lparr>addr = 0x78, val = 0xa0\<rparr>, \<lparr>addr = 0x79, val = 0x5e\<rparr>, \<lparr>addr = 0x7a, val = 0x54\<rparr>, \<lparr>addr = 0x7b, val = 0x58\<rparr>,
     \<lparr>addr = 0xfe, val = 0x00\<rparr>, \<lparr>addr = 0xfe, val = 0x02\<rparr>, \<lparr>addr = 0xc0, val = 0x01\<rparr>, \<lparr>addr = 0xc1, val = 0x44\<rparr>,
     \<lparr>addr = 0xc2, val = 0xfd\<rparr>, \<lparr>addr = 0xc3, val = 0x04\<rparr>, \<lparr>addr = 0xc4, val = 0xF0\<rparr>, \<lparr>addr = 0xc5, val = 0x48\<rparr>,
     \<lparr>addr = 0xc6, val = 0xfd\<rparr>, \<lparr>addr = 0xc7, val = 0x46\<rparr>, \<lparr>addr = 0xc8, val = 0xfd\<rparr>, \<lparr>addr = 0xc9, val = 0x02\<rparr>,
     \<lparr>addr = 0xca, val = 0xe0\<rparr>, \<lparr>addr = 0xcb, val = 0x45\<rparr>, \<lparr>addr = 0xcc, val = 0xec\<rparr>, \<lparr>addr = 0xcd, val = 0x48\<rparr>,
     \<lparr>addr = 0xce, val = 0xf0\<rparr>, \<lparr>addr = 0xcf, val = 0xf0\<rparr>, \<lparr>addr = 0xe3, val = 0x0c\<rparr>, \<lparr>addr = 0xe4, val = 0x4b\<rparr>,
     \<lparr>addr = 0xe5, val = 0xe0\<rparr>, \<lparr>addr = 0xfe, val = 0x01\<rparr>, \<lparr>addr = 0x9f, val = 0x40\<rparr>, \<lparr>addr = 0xfe, val = 0x00\<rparr>,
     \<lparr>addr = 0xfe, val = 0x00\<rparr>, \<lparr>addr = 0xf2, val = 0x0f\<rparr>, \<lparr>addr = 0xfe, val = 0x02\<rparr>, \<lparr>addr = 0x40, val = 0xbf\<rparr>,
     \<lparr>addr = 0x46, val = 0xcf\<rparr>, \<lparr>addr = 0xfe, val = 0x00\<rparr>, \<lparr>addr = 0xfe, val = 0x00\<rparr>, \<lparr>addr = 0x05, val = 0x01\<rparr>,
     \<lparr>addr = 0x06, val = 0x56\<rparr>, \<lparr>addr = 0x07, val = 0x00\<rparr>, \<lparr>addr = 0x08, val = 0x32\<rparr>, \<lparr>addr = 0xfe, val = 0x01\<rparr>,
     \<lparr>addr = 0x25, val = 0x00\<rparr>, \<lparr>addr = 0x26, val = 0xfa\<rparr>, \<lparr>addr = 0x27, val = 0x04\<rparr>, \<lparr>addr = 0x28, val = 0xe2\<rparr>,
     \<lparr>addr = 0x29, val = 0x06\<rparr>, \<lparr>addr = 0x2a, val = 0xd6\<rparr>, \<lparr>addr = 0x2b, val = 0x07\<rparr>, \<lparr>addr = 0x2c, val = 0xd0\<rparr>,
     \<lparr>addr = 0x2d, val = 0x0b\<rparr>, \<lparr>addr = 0x2e, val = 0xb8\<rparr>, \<lparr>addr = 0xfe, val = 0x00\<rparr>, \<lparr>addr = 0xfe, val = 0x00\<rparr>,
     \<lparr>addr = 0xfd, val = 0x01\<rparr>, \<lparr>addr = 0xfa, val = 0x00\<rparr>, \<lparr>addr = 0xfe, val = 0x00\<rparr>, \<lparr>addr = 0x90, val = 0x01\<rparr>,
     \<lparr>addr = 0x91, val = 0x00\<rparr>, \<lparr>addr = 0x92, val = 0x00\<rparr>, \<lparr>addr = 0x93, val = 0x00\<rparr>, \<lparr>addr = 0x94, val = 0x00\<rparr>,
     \<lparr>addr = 0x95, val = 0x02\<rparr>, \<lparr>addr = 0x96, val = 0x58\<rparr>, \<lparr>addr = 0x97, val = 0x03\<rparr>, \<lparr>addr = 0x98, val = 0x20\<rparr>,
     \<lparr>addr = 0x99, val = 0x11\<rparr>, \<lparr>addr = 0x9a, val = 0x06\<rparr>, \<lparr>addr = 0xfe, val = 0x00\<rparr>, \<lparr>addr = 0xec, val = 0x02\<rparr>,
     \<lparr>addr = 0xed, val = 0x02\<rparr>, \<lparr>addr = 0xee, val = 0x30\<rparr>, \<lparr>addr = 0xef, val = 0x48\<rparr>, \<lparr>addr = 0xfe, val = 0x02\<rparr>,
     \<lparr>addr = 0x9d, val = 0x08\<rparr>, \<lparr>addr = 0xfe, val = 0x01\<rparr>, \<lparr>addr = 0x74, val = 0x00\<rparr>, \<lparr>addr = 0xfe, val = 0x01\<rparr>,
     \<lparr>addr = 0x01, val = 0x04\<rparr>, \<lparr>addr = 0x02, val = 0x60\<rparr>, \<lparr>addr = 0x03, val = 0x02\<rparr>, \<lparr>addr = 0x04, val = 0x48\<rparr>,
     \<lparr>addr = 0x05, val = 0x18\<rparr>, \<lparr>addr = 0x06, val = 0x50\<rparr>, \<lparr>addr = 0x07, val = 0x10\<rparr>, \<lparr>addr = 0x08, val = 0x38\<rparr>,
     \<lparr>addr = 0x0a, val = 0x80\<rparr>, \<lparr>addr = 0x21, val = 0x04\<rparr>, \<lparr>addr = 0xfe, val = 0x00\<rparr>, \<lparr>addr = 0x20, val = 0x03\<rparr>,
     \<lparr>addr = 0xfe, val = 0x00\<rparr>, \<lparr>addr = GC2145_REG_NULL, val = 0x00\<rparr>
    ]"

definition gc2145_setting_qvga :: "gc2145_reg list" where
  "gc2145_setting_qvga =
    [
     \<lparr>addr = 0xfe, val = 0x00\<rparr>, \<lparr>addr = 0xb6, val = 0x01\<rparr>, \<lparr>addr = 0xfd, val = 0x01\<rparr>, \<lparr>addr = 0xfa, val = 0x00\<rparr>,
     \<lparr>addr = 0xfe, val = 0x00\<rparr>, \<lparr>addr = 0x90, val = 0x01\<rparr>, \<lparr>addr = 0x91, val = 0x00\<rparr>, \<lparr>addr = 0x92, val = 0x00\<rparr>,
     \<lparr>addr = 0x93, val = 0x00\<rparr>, \<lparr>addr = 0x94, val = 0x00\<rparr>, \<lparr>addr = 0x95, val = 0x00\<rparr>, \<lparr>addr = 0x96, val = 0xf0\<rparr>,
     \<lparr>addr = 0x97, val = 0x01\<rparr>, \<lparr>addr = 0x98, val = 0x40\<rparr>, \<lparr>addr = 0x99, val = 0x55\<rparr>, \<lparr>addr = 0x9a, val = 0x06\<rparr>,
     \<lparr>addr = 0x9b, val = 0x01\<rparr>, \<lparr>addr = 0x9c, val = 0x00\<rparr>, \<lparr>addr = 0x9d, val = 0x00\<rparr>, \<lparr>addr = 0x9e, val = 0x00\<rparr>,
     \<lparr>addr = 0x9f, val = 0x01\<rparr>, \<lparr>addr = 0xa0, val = 0x00\<rparr>, \<lparr>addr = 0xa1, val = 0x00\<rparr>, \<lparr>addr = 0xa2, val = 0x00\<rparr>,
     \<lparr>addr = 0xfe, val = 0x00\<rparr>, \<lparr>addr = 0xec, val = 0x02\<rparr>, \<lparr>addr = 0xed, val = 0x02\<rparr>, \<lparr>addr = 0xee, val = 0x30\<rparr>,
     \<lparr>addr = 0xef, val = 0x48\<rparr>, \<lparr>addr = 0xfe, val = 0x02\<rparr>, \<lparr>addr = 0x9d, val = 0x08\<rparr>, \<lparr>addr = 0xfe, val = 0x01\<rparr>,
     \<lparr>addr = 0x74, val = 0x00\<rparr>, \<lparr>addr = 0xfe, val = 0x01\<rparr>, \<lparr>addr = 0x01, val = 0x04\<rparr>, \<lparr>addr = 0x02, val = 0x60\<rparr>,
     \<lparr>addr = 0x03, val = 0x02\<rparr>, \<lparr>addr = 0x04, val = 0x48\<rparr>, \<lparr>addr = 0x05, val = 0x18\<rparr>, \<lparr>addr = 0x06, val = 0x50\<rparr>,
     \<lparr>addr = 0x07, val = 0x10\<rparr>, \<lparr>addr = 0x08, val = 0x38\<rparr>, \<lparr>addr = 0x0a, val = 0x80\<rparr>, \<lparr>addr = 0x21, val = 0x04\<rparr>,
     \<lparr>addr = 0xfe, val = 0x00\<rparr>, \<lparr>addr = 0x20, val = 0x03\<rparr>, \<lparr>addr = 0xfe, val = 0x00\<rparr>, \<lparr>addr = GC2145_REG_NULL, val = 0x00\<rparr>
    ]"

definition gc2145_setting_vga :: "gc2145_reg list" where
  "gc2145_setting_vga =
    [
     \<lparr>addr = 0xfe, val = 0x00\<rparr>, \<lparr>addr = 0xb6, val = 0x01\<rparr>, \<lparr>addr = 0xfd, val = 0x01\<rparr>, \<lparr>addr = 0xfa, val = 0x00\<rparr>,
     \<lparr>addr = 0xfe, val = 0x00\<rparr>, \<lparr>addr = 0x90, val = 0x01\<rparr>, \<lparr>addr = 0x91, val = 0x00\<rparr>, \<lparr>addr = 0x92, val = 0x00\<rparr>,
     \<lparr>addr = 0x93, val = 0x00\<rparr>, \<lparr>addr = 0x94, val = 0x00\<rparr>, \<lparr>addr = 0x95, val = 0x01\<rparr>, \<lparr>addr = 0x96, val = 0xe0\<rparr>,
     \<lparr>addr = 0x97, val = 0x02\<rparr>, \<lparr>addr = 0x98, val = 0x80\<rparr>, \<lparr>addr = 0x99, val = 0x55\<rparr>, \<lparr>addr = 0x9a, val = 0x06\<rparr>,
     \<lparr>addr = 0x9b, val = 0x01\<rparr>, \<lparr>addr = 0x9c, val = 0x23\<rparr>, \<lparr>addr = 0x9d, val = 0x00\<rparr>, \<lparr>addr = 0x9e, val = 0x00\<rparr>,
     \<lparr>addr = 0x9f, val = 0x01\<rparr>, \<lparr>addr = 0xa0, val = 0x23\<rparr>, \<lparr>addr = 0xa1, val = 0x00\<rparr>, \<lparr>addr = 0xa2, val = 0x00\<rparr>,
     \<lparr>addr = 0xfe, val = 0x00\<rparr>, \<lparr>addr = 0xec, val = 0x02\<rparr>, \<lparr>addr = 0xed, val = 0x02\<rparr>, \<lparr>addr = 0xee, val = 0x30\<rparr>,
     \<lparr>addr = 0xef, val = 0x48\<rparr>, \<lparr>addr = 0xfe, val = 0x02\<rparr>, \<lparr>addr = 0x9d, val = 0x08\<rparr>, \<lparr>addr = 0xfe, val = 0x01\<rparr>,
     \<lparr>addr = 0x74, val = 0x00\<rparr>, \<lparr>addr = 0xfe, val = 0x01\<rparr>, \<lparr>addr = 0x01, val = 0x04\<rparr>, \<lparr>addr = 0x02, val = 0x60\<rparr>,
     \<lparr>addr = 0x03, val = 0x02\<rparr>, \<lparr>addr = 0x04, val = 0x48\<rparr>, \<lparr>addr = 0x05, val = 0x18\<rparr>, \<lparr>addr = 0x06, val = 0x50\<rparr>,
     \<lparr>addr = 0x07, val = 0x10\<rparr>, \<lparr>addr = 0x08, val = 0x38\<rparr>, \<lparr>addr = 0x0a, val = 0x80\<rparr>, \<lparr>addr = 0x21, val = 0x04\<rparr>,
     \<lparr>addr = 0xfe, val = 0x00\<rparr>, \<lparr>addr = 0x20, val = 0x03\<rparr>, \<lparr>addr = 0xfe, val = 0x00\<rparr>, \<lparr>addr = GC2145_REG_NULL, val = 0x00\<rparr>
    ]"

definition gc2145_setting_svga :: "gc2145_reg list" where
  "gc2145_setting_svga =
    [
     \<lparr>addr = 0xfe, val = 0x00\<rparr>, \<lparr>addr = 0x05, val = 0x02\<rparr>, \<lparr>addr = 0x06, val = 0x20\<rparr>, \<lparr>addr = 0x07, val = 0x03\<rparr>,
     \<lparr>addr = 0x08, val = 0x80\<rparr>, \<lparr>addr = 0xb6, val = 0x01\<rparr>, \<lparr>addr = 0xfd, val = 0x03\<rparr>, \<lparr>addr = 0xfa, val = 0x00\<rparr>,
     \<lparr>addr = 0x18, val = 0x42\<rparr>, \<lparr>addr = 0xfe, val = 0x00\<rparr>, \<lparr>addr = 0x90, val = 0x01\<rparr>, \<lparr>addr = 0x91, val = 0x00\<rparr>,
     \<lparr>addr = 0x92, val = 0x00\<rparr>, \<lparr>addr = 0x93, val = 0x00\<rparr>, \<lparr>addr = 0x94, val = 0x00\<rparr>, \<lparr>addr = 0x95, val = 0x02\<rparr>,
     \<lparr>addr = 0x96, val = 0x58\<rparr>, \<lparr>addr = 0x97, val = 0x03\<rparr>, \<lparr>addr = 0x98, val = 0x20\<rparr>, \<lparr>addr = 0x99, val = 0x11\<rparr>,
     \<lparr>addr = 0x9a, val = 0x06\<rparr>, \<lparr>addr = 0xfe, val = 0x00\<rparr>, \<lparr>addr = 0xec, val = 0x02\<rparr>, \<lparr>addr = 0xed, val = 0x02\<rparr>,
     \<lparr>addr = 0xee, val = 0x30\<rparr>, \<lparr>addr = 0xef, val = 0x48\<rparr>, \<lparr>addr = 0xfe, val = 0x02\<rparr>, \<lparr>addr = 0x9d, val = 0x08\<rparr>,
     \<lparr>addr = 0xfe, val = 0x01\<rparr>, \<lparr>addr = 0x74, val = 0x00\<rparr>, \<lparr>addr = 0xfe, val = 0x01\<rparr>, \<lparr>addr = 0x01, val = 0x04\<rparr>,
     \<lparr>addr = 0x02, val = 0x60\<rparr>, \<lparr>addr = 0x03, val = 0x02\<rparr>, \<lparr>addr = 0x04, val = 0x48\<rparr>, \<lparr>addr = 0x05, val = 0x18\<rparr>,
     \<lparr>addr = 0x06, val = 0x50\<rparr>, \<lparr>addr = 0x07, val = 0x10\<rparr>, \<lparr>addr = 0x08, val = 0x38\<rparr>, \<lparr>addr = 0x0a, val = 0x80\<rparr>,
     \<lparr>addr = 0x21, val = 0x04\<rparr>, \<lparr>addr = 0xfe, val = 0x00\<rparr>, \<lparr>addr = 0x20, val = 0x03\<rparr>, \<lparr>addr = 0xfe, val = 0x00\<rparr>,
     \<lparr>addr = GC2145_REG_NULL, val = 0x00\<rparr>
    ]"

definition gc2145_setting_uxga :: "gc2145_reg list" where
  "gc2145_setting_uxga =
    [
     \<lparr>addr = 0xfe, val = 0x00\<rparr>, \<lparr>addr = 0xfd, val = 0x00\<rparr>, \<lparr>addr = 0xfa, val = 0x11\<rparr>, \<lparr>addr = 0xfe, val = 0x00\<rparr>,
     \<lparr>addr = 0x90, val = 0x01\<rparr>, \<lparr>addr = 0x91, val = 0x00\<rparr>, \<lparr>addr = 0x92, val = 0x00\<rparr>, \<lparr>addr = 0x93, val = 0x00\<rparr>,
     \<lparr>addr = 0x94, val = 0x00\<rparr>, \<lparr>addr = 0x95, val = 0x04\<rparr>, \<lparr>addr = 0x96, val = 0xb0\<rparr>, \<lparr>addr = 0x97, val = 0x06\<rparr>,
     \<lparr>addr = 0x98, val = 0x40\<rparr>, \<lparr>addr = 0x99, val = 0x11\<rparr>, \<lparr>addr = 0x9a, val = 0x06\<rparr>, \<lparr>addr = 0xfe, val = 0x00\<rparr>,
     \<lparr>addr = 0xec, val = 0x06\<rparr>, \<lparr>addr = 0xed, val = 0x04\<rparr>, \<lparr>addr = 0xee, val = 0x60\<rparr>, \<lparr>addr = 0xef, val = 0x90\<rparr>,
     \<lparr>addr = 0xfe, val = 0x01\<rparr>, \<lparr>addr = 0x74, val = 0x01\<rparr>, \<lparr>addr = 0xfe, val = 0x01\<rparr>, \<lparr>addr = 0x01, val = 0x04\<rparr>,
     \<lparr>addr = 0x02, val = 0xc0\<rparr>, \<lparr>addr = 0x03, val = 0x04\<rparr>, \<lparr>addr = 0x04, val = 0x90\<rparr>, \<lparr>addr = 0x05, val = 0x30\<rparr>,
     \<lparr>addr = 0x06, val = 0x90\<rparr>, \<lparr>addr = 0x07, val = 0x30\<rparr>, \<lparr>addr = 0x08, val = 0x80\<rparr>, \<lparr>addr = 0x0a, val = 0x82\<rparr>,
     \<lparr>addr = 0xfe, val = 0x01\<rparr>, \<lparr>addr = 0x21, val = 0x15\<rparr>, \<lparr>addr = 0xfe, val = 0x00\<rparr>, \<lparr>addr = 0x20, val = 0x15\<rparr>,
     \<lparr>addr = 0xfe, val = 0x00\<rparr>, \<lparr>addr = GC2145_REG_NULL, val = 0x00\<rparr>
    ]"

definition gc2145_fmt_yuv422_yuyv :: "gc2145_reg list" where
  "gc2145_fmt_yuv422_yuyv = [\<lparr>addr = 0x84, val = 0x02\<rparr>]"

definition gc2145_fmt_yuv422_yvyu :: "gc2145_reg list" where
  "gc2145_fmt_yuv422_yvyu = [\<lparr>addr = 0x84, val = 0x03\<rparr>]"

definition gc2145_fmt_yuv422_vyuy :: "gc2145_reg list" where
  "gc2145_fmt_yuv422_vyuy = [\<lparr>addr = 0x84, val = 0x01\<rparr>]"

definition gc2145_fmt_yuv422_uyvy :: "gc2145_reg list" where
  "gc2145_fmt_yuv422_uyvy = [\<lparr>addr = 0x84, val = 0x00\<rparr>]"

definition gc2145_fmt_raw :: "gc2145_reg list" where
  "gc2145_fmt_raw = [\<lparr>addr = 0x84, val = 0x18\<rparr>]"

record gc2145_pixfmt =
  code :: u32
  colorspace :: u32
  output_fmt :: u8
  fmt_reg :: "gc2145_reg list"

definition gc2145_format_list :: "gc2145_pixfmt list" where
  "gc2145_format_list =
    [\<lparr>code = MEDIA_BUS_FMT_UYVY8_2X8, colorspace = V4L2_COLORSPACE_SRGB,
      output_fmt = GC2145_OUTPUT_FMT_UYVY, fmt_reg = gc2145_fmt_yuv422_uyvy\<rparr>,
     \<lparr>code = MEDIA_BUS_FMT_VYUY8_2X8, colorspace = V4L2_COLORSPACE_JPEG,
      output_fmt = GC2145_OUTPUT_FMT_VYUY, fmt_reg = gc2145_fmt_yuv422_vyuy\<rparr>,
     \<lparr>code = MEDIA_BUS_FMT_YUYV8_2X8, colorspace = V4L2_COLORSPACE_SRGB,
      output_fmt = GC2145_OUTPUT_FMT_YUYV, fmt_reg = gc2145_fmt_yuv422_yuyv\<rparr>,
     \<lparr>code = MEDIA_BUS_FMT_YVYU8_2X8, colorspace = V4L2_COLORSPACE_JPEG,
      output_fmt = GC2145_OUTPUT_FMT_YVYU, fmt_reg = gc2145_fmt_yuv422_yvyu\<rparr>,
     \<lparr>code = MEDIA_BUS_FMT_RGB565_2X8_BE, colorspace = V4L2_COLORSPACE_SRGB,
      output_fmt = GC2145_OUTPUT_FMT_RGB, fmt_reg = gc2145_fmt_raw\<rparr>,
     \<lparr>code = MEDIA_BUS_FMT_SBGGR8_1X8, colorspace = V4L2_COLORSPACE_RAW,
      output_fmt = GC2145_OUTPUT_FMT_LSC, fmt_reg = gc2145_fmt_raw\<rparr>]"

datatype gc2145_mode_id =
  GC2145_MODE_QVGA_320_240
  | GC2145_MODE_VGA_640_480
  | GC2145_MODE_SVGA_800_600
  | GC2145_MODE_UXGA_1600_1200

record gc2145_mode =
  mode_id :: gc2145_mode_id
  hact :: u32
  htot :: u32
  vact :: u32
  vtot :: u32
  reg_list :: "gc2145_reg list"
  reg_list_size :: nat

definition gc2145_mode_list :: "gc2145_mode list" where
  "gc2145_mode_list =
    [\<lparr>mode_id = GC2145_MODE_QVGA_320_240, hact = 320, htot = 320, vact = 240, vtot = 240,
      reg_list = gc2145_setting_qvga, reg_list_size = length gc2145_setting_qvga\<rparr>,
     \<lparr>mode_id = GC2145_MODE_VGA_640_480, hact = 640, htot = 640, vact = 480, vtot = 480,
      reg_list = gc2145_setting_vga, reg_list_size = length gc2145_setting_vga\<rparr>,
     \<lparr>mode_id = GC2145_MODE_SVGA_800_600, hact = 800, htot = 800, vact = 600, vtot = 600,
      reg_list = gc2145_setting_svga, reg_list_size = length gc2145_setting_svga\<rparr>,
     \<lparr>mode_id = GC2145_MODE_UXGA_1600_1200, hact = 1600, htot = 1600, vact = 1200,
      vtot = 1200,
      reg_list = gc2145_setting_uxga, reg_list_size = length gc2145_setting_uxga\<rparr>]"

subsection \<open>Framework structures\<close>

text \<open>\<^verbatim>\<open>struct v4l2_mbus_framefmt\<close>\<close>

record v4l2_mbus_framefmt =
  width :: u32
  height :: u32
  mbus_code :: u32
  field :: u32
  mbus_colorspace :: u32
  ycbcr_enc :: u32
  quantization :: u32
  xfer_func :: u32

text \<open>\<^verbatim>\<open>struct v4l2_subdev_format\<close>\<close>

record v4l2_subdev_format =
  which :: u32
  pad :: u32
  format :: v4l2_mbus_framefmt

text \<open>\<^verbatim>\<open>struct v4l2_subdev_mbus_code_enum\<close>\<close>

record v4l2_subdev_mbus_code_enum =
  mce_pad :: u32
  mce_index :: u32
  mce_code :: u32

text \<open>\<^verbatim>\<open>struct v4l2_subdev_frame_size_enum\<close>\<close>

record v4l2_subdev_frame_size_enum =
  fse_index :: u32
  fse_pad :: u32
  fse_code :: u32
  min_width :: u32
  max_width :: u32
  min_height :: u32
  max_height :: u32

text \<open>
  \<^verbatim>\<open>struct v4l2_subdev_pad_config\<close> of the single pad;
  \<^verbatim>\<open>v4l2_subdev_get_try_format(sd, cfg, 0)\<close> is the address of its \<^verbatim>\<open>try_fmt\<close>.
\<close>

record v4l2_subdev_pad_config =
  try_fmt :: v4l2_mbus_framefmt

text \<open>
  \<^verbatim>\<open>struct gc2145_dev\<close>: the fields the modelled functions read or write. A GPIO
  descriptor is modelled by whether it is present (the pointer is not NULL); a mode
  pointer by the mode it points to (\<open>None\<close> is NULL). \<^verbatim>\<open>power_count\<close> is a 32-bit
  two's-complement integer: \<open>sint\<close> reads its signed value.
\<close>

record gc2145_dev =
  fmt :: v4l2_mbus_framefmt
  reset_gpio :: bool
  pwdn_gpio :: bool
  current_mode :: "gc2145_mode option"
  last_mode :: "gc2145_mode option"
  power_count :: s32

subsection \<open>The hardware and the register transport\<close>

text \<open>
  Everything the driver does outside its own memory is an event appended to a trace:
  a transfer handed to \<^verbatim>\<open>i2c_transfer\<close>, a busy-wait, a GPIO write, the clock being
  disabled, a \<^verbatim>\<open>WARN_ON\<close> that fired. The levels of the two GPIO lines and the state
  of the reference clock are kept beside the trace.
\<close>

datatype event =
  I2cWrite u8 u8
  | I2cRead u8
  | Mdelay nat
  | Udelay nat
  | GpioPwdn bool
  | GpioReset bool
  | ClkDisableUnprepare
  | WarnOn

record hw_state =
  pwdn_level :: bool
  reset_level :: bool
  xclk_enabled :: bool
  trace :: "event list"

text \<open>
  The transport (\<^verbatim>\<open>i2c_transfer\<close> on the client's adapter) is external: it is a
  parameter giving, for the hardware state in which a transfer is issued, the return
  value of \<^verbatim>\<open>i2c_transfer\<close> (negative on failure) and, for a read, the byte left in
  the buffer.
\<close>

record i2c_client =
  i2c_write :: "hw_state \<Rightarrow> u8 \<Rightarrow> u8 \<Rightarrow> int"
  i2c_read :: "hw_state \<Rightarrow> u8 \<Rightarrow> int \<times> u8"

definition emit :: "event \<Rightarrow> hw_state \<Rightarrow> hw_state" where
  "emit e hw = hw\<lparr>trace := trace hw @ [e]\<rparr>"

section \<open>The driver's functions\<close>

subsection \<open>Register access\<close>

definition gc2145_write_reg :: "i2c_client \<Rightarrow> u8 \<Rightarrow> u8 \<Rightarrow> hw_state \<Rightarrow> int \<times> hw_state" where
  "gc2145_write_reg client reg v hw =
     (let ret = i2c_write client hw reg v;
          hw' = emit (I2cWrite reg v) hw
      in if ret < 0 then (ret, hw') else (0, hw'))"

text \<open>
  \<^verbatim>\<open>*val\<close> is written only when the transfer succeeds; \<open>old\<close> is what the
  caller's variable held before the call.
\<close>

definition gc2145_read_reg ::
  "i2c_client \<Rightarrow> u8 \<Rightarrow> u8 \<Rightarrow> hw_state \<Rightarrow> int \<times> u8 \<times> hw_state" where
  "gc2145_read_reg client reg old hw =
     (let (ret, b) = i2c_read client hw reg;
          hw' = emit (I2cRead reg) hw
      in if ret < 0 then (ret, old, hw') else (0, b, hw'))"

text \<open>
  The \<^verbatim>\<open>for\<close> loop of \<^verbatim>\<open>gc2145_write_array\<close> over the rows still to apply, with
  the current value of \<^verbatim>\<open>ret\<close>.
\<close>

fun gc2145_write_array_loop ::
  "i2c_client \<Rightarrow> gc2145_reg list \<Rightarrow> int \<Rightarrow> hw_state \<Rightarrow> int \<times> hw_state" where
  "gc2145_write_array_loop client [] ret hw = (ret, hw)"
| "gc2145_write_array_loop client (r # rs) ret hw =
     (if addr r = GC2145_REG_NULL
      then gc2145_write_array_loop client rs ret (emit (Mdelay (unat (val r))) hw)
      else (case gc2145_write_reg client (addr r) (val r) hw of
              (ret', hw') \<Rightarrow>
                if ret' < 0 then (ret', hw')
                else gc2145_write_array_loop client rs ret' hw'))"

text \<open>
  \<open>None\<close> for \<open>client\<close> or \<open>regs\<close> is the NULL pointer; \<^verbatim>\<open>size\<close> is the
  length of the array, as at the driver's call site (\<^verbatim>\<open>ARRAY_SIZE\<close>).
\<close>

definition gc2145_write_array ::
  "i2c_client option \<Rightarrow> gc2145_reg list option \<Rightarrow> hw_state \<Rightarrow> int \<times> hw_state" where
  "gc2145_write_array client regs hw =
     (case client of
        None \<Rightarrow> (- EINVAL, hw)
      | Some c \<Rightarrow>
          (case regs of
             None \<Rightarrow> (- EINVAL, hw)
           | Some rs \<Rightarrow>
               if length rs = 0 then (- EINVAL, hw)
               else gc2145_write_array_loop c rs 0 hw))"

subsection \<open>Format and frame-size enumeration\<close>

definition gc2145_enum_mbus_code ::
  "v4l2_subdev_mbus_code_enum \<Rightarrow> int \<times> v4l2_subdev_mbus_code_enum" where
  "gc2145_enum_mbus_code ce =
     (if mce_pad ce \<noteq> 0 then (- EINVAL, ce)
      else if unat (mce_index ce) \<ge> length gc2145_format_list then (- EINVAL, ce)
      else (0, ce\<lparr>mce_code := code (gc2145_format_list ! unat (mce_index ce))\<rparr>))"

text \<open>The search loop of \<^verbatim>\<open>gc2145_find_pixfmt\<close>: the value of \<^verbatim>\<open>i\<close> when it ends.\<close>

function gc2145_find_pixfmt_loop :: "u32 \<Rightarrow> nat \<Rightarrow> nat" where
  "gc2145_find_pixfmt_loop c i =
     (if i < length gc2145_format_list
      then (if code (gc2145_format_list ! i) = c then i
            else gc2145_find_pixfmt_loop c (Suc i))
      else i)"
  by pat_completeness auto
termination
  by (relation "measure (\<lambda>(c, i). length gc2145_format_list - i)") auto

definition gc2145_find_pixfmt_index :: "u32 \<Rightarrow> nat" where
  "gc2145_find_pixfmt_index c =
     (let i = gc2145_find_pixfmt_loop c 0
      in if i \<ge> length gc2145_format_list then 0 else i)"

definition gc2145_find_pixfmt :: "u32 \<Rightarrow> gc2145_pixfmt" where
  "gc2145_find_pixfmt c = gc2145_format_list ! gc2145_find_pixfmt_index c"

text \<open>
  \<^verbatim>\<open>gc2145_enum_frame_size\<close> reads \<^verbatim>\<open>gc2145_mode_list[fse->index]\<close> after checking
  the index against the format list only. A read beyond the end of the mode list has
  no defined result in C: the model returns \<open>None\<close> there.
\<close>

definition gc2145_enum_frame_size ::
  "v4l2_subdev_frame_size_enum \<Rightarrow> (int \<times> v4l2_subdev_frame_size_enum) option" where
  "gc2145_enum_frame_size fse =
     (if unat (fse_index fse) \<ge> length gc2145_format_list then Some (- EINVAL, fse)
      else
        let c = code (gc2145_find_pixfmt (fse_code fse))
        in if fse_code fse \<noteq> c then Some (- EINVAL, fse)
           else if unat (fse_index fse) < length gc2145_mode_list
           then
             (let m = gc2145_mode_list ! unat (fse_index fse);
                  fse1 = fse\<lparr>min_width := hact m\<rparr>;
                  fse2 = fse1\<lparr>max_width := min_width fse1\<rparr>;
                  fse3 = fse2\<lparr>min_height := vact m\<rparr>;
                  fse4 = fse3\<lparr>max_height := min_height fse3\<rparr>
              in Some (0, fse4))
           else None)"

subsection \<open>Mode resolution\<close>

text \<open>
  The kernel's \<^verbatim>\<open>abs()\<close> on an \<^verbatim>\<open>u32\<close> expression: the value is converted to
  \<^verbatim>\<open>int\<close> and negated when negative.
\<close>

definition abs_s32 :: "u32 \<Rightarrow> u32" where
  "abs_s32 x = (if sint x < 0 then - x else x)"

text \<open>
  The kernel helper behind \<^verbatim>\<open>v4l2_find_nearest_size\<close> (v4l2-common), over the
  \<^verbatim>\<open>hact\<close>/\<^verbatim>\<open>vact\<close> fields: the loop over the remaining entries with the current
  \<^verbatim>\<open>min_error\<close> and \<^verbatim>\<open>best\<close>. An entry replaces the best one unless its error is
  strictly larger; an exact match ends the search.
\<close>

fun v4l2_find_nearest_size_loop ::
  "gc2145_mode list \<Rightarrow> u32 \<Rightarrow> u32 \<Rightarrow> u32 \<Rightarrow> gc2145_mode option \<Rightarrow> gc2145_mode option" where
  "v4l2_find_nearest_size_loop [] w h min_error best = best"
| "v4l2_find_nearest_size_loop (m # ms) w h min_error best =
     (let error = abs_s32 (hact m - w) + abs_s32 (vact m - h)
      in if error > min_error then v4l2_find_nearest_size_loop ms w h min_error best
         else if error = 0 then Some m
         else v4l2_find_nearest_size_loop ms w h error (Some m))"

definition v4l2_find_nearest_size :: "gc2145_mode list \<Rightarrow> u32 \<Rightarrow> u32 \<Rightarrow> gc2145_mode option" where
  "v4l2_find_nearest_size array w h = v4l2_find_nearest_size_loop array w h (- 1) None"

definition gc2145_find_mode :: "u32 \<Rightarrow> u32 \<Rightarrow> bool \<Rightarrow> gc2145_mode option" where
  "gc2145_find_mode w h nearest =
     (case v4l2_find_nearest_size gc2145_mode_list w h of
        None \<Rightarrow> None
      | Some m \<Rightarrow> if \<not> nearest \<and> (hact m \<noteq> w \<or> vact m \<noteq> h) then None else Some m)"

text \<open>
  \<^verbatim>\<open>gc2145_try_fmt_internal\<close>: \<open>have_new_mode\<close> says that the \<^verbatim>\<open>new_mode\<close>
  out-pointer is not NULL; the third component of the result is what is stored through
  it (\<open>None\<close> when nothing is stored).
\<close>

definition gc2145_try_fmt_internal ::
  "v4l2_mbus_framefmt \<Rightarrow> bool \<Rightarrow> int \<times> v4l2_mbus_framefmt \<times> gc2145_mode option" where
  "gc2145_try_fmt_internal mbus_fmt have_new_mode =
     (if \<not> have_new_mode then (- EINVAL, mbus_fmt, None)
      else
        (case gc2145_find_mode (width mbus_fmt) (height mbus_fmt) True of
           None \<Rightarrow> (- EINVAL, mbus_fmt, None)
         | Some m \<Rightarrow>
             (let f1 = mbus_fmt\<lparr>width := hact m, height := vact m, field := V4L2_FIELD_NONE\<rparr>;
                  pix_fmt = gc2145_find_pixfmt (mbus_code f1);
                  f2 = f1\<lparr>mbus_code := code pix_fmt, mbus_colorspace := colorspace pix_fmt\<rparr>;
                  f3 = f2\<lparr>ycbcr_enc := V4L2_MAP_YCBCR_ENC_DEFAULT (mbus_colorspace f2)\<rparr>;
                  f4 = f3\<lparr>quantization :=
                         V4L2_MAP_QUANTIZATION_DEFAULT True (mbus_colorspace f3) (ycbcr_enc f3)\<rparr>;
                  f5 = f4\<lparr>xfer_func := V4L2_MAP_XFER_FUNC_DEFAULT (mbus_colorspace f4)\<rparr>
              in (0, f5, Some m))))"

subsection \<open>Getting and setting the format\<close>

definition gc2145_get_fmt ::
  "gc2145_dev \<Rightarrow> v4l2_subdev_pad_config \<Rightarrow> v4l2_subdev_format \<Rightarrow> int \<times> v4l2_subdev_format" where
  "gc2145_get_fmt sensor cfg fm =
     (if pad fm \<noteq> 0 then (- EINVAL, fm)
      else
        (let f = (if which fm = V4L2_SUBDEV_FORMAT_TRY then try_fmt cfg else fmt sensor)
         in (0, fm\<lparr>format := f\<rparr>)))"

text \<open>
  \<^verbatim>\<open>gc2145_params_set\<close>: the init program, the page select and the output-format
  register of the format found for \<^verbatim>\<open>sensor->fmt.code\<close>. The per-mode register list
  is not written (the source has it commented out).
\<close>

definition gc2145_params_set ::
  "i2c_client \<Rightarrow> gc2145_dev \<Rightarrow> hw_state \<Rightarrow> int \<times> hw_state" where
  "gc2145_params_set client sensor hw =
     (let pixfmt = gc2145_find_pixfmt (mbus_code (fmt sensor))
      in case gc2145_write_array (Some client) (Some gc2145_init_regs) hw of
           (ret1, hw1) \<Rightarrow>
             if ret1 < 0 then (ret1, hw1)
             else
               (case gc2145_write_reg client GC2145_REG_PAGE_SELECT 0x00 hw1 of
                  (ret2, hw2) \<Rightarrow>
                    if ret2 < 0 then (ret2, hw2)
                    else
                      (case gc2145_write_reg client (addr (fmt_reg pixfmt ! 0))
                              (val (fmt_reg pixfmt ! 0)) hw2 of
                         (ret3, hw3) \<Rightarrow>
                           if ret3 < 0 then (ret3, hw3) else (0, hw3))))"

text \<open>
  \<^verbatim>\<open>gc2145_set_fmt\<close>. The result is the return value, the device structure, the pad
  configuration, the caller's \<^verbatim>\<open>format\<close> (which the function overwrites in place)
  and the hardware.
\<close>

definition gc2145_set_fmt ::
  "i2c_client \<Rightarrow> gc2145_dev \<Rightarrow> v4l2_subdev_pad_config \<Rightarrow> v4l2_subdev_format \<Rightarrow> hw_state
   \<Rightarrow> int \<times> gc2145_dev \<times> v4l2_subdev_pad_config \<times> v4l2_subdev_format \<times> hw_state" where
  "gc2145_set_fmt client sensor cfg fm hw =
     (if pad fm \<noteq> 0 then (- EINVAL, sensor, cfg, fm, hw)
      else
        (let mbus_fmt_in = (format fm)\<lparr>width := 800, height := 600\<rparr>
         in case gc2145_try_fmt_internal mbus_fmt_in True of
              (ret, mbus_fmt_in', new_mode) \<Rightarrow>
                (let fm' = fm\<lparr>format := mbus_fmt_in'\<rparr>
                 in if ret \<noteq> 0 then (ret, sensor, cfg, fm', hw)
                    else
                      (let cfg' = (if which fm = V4L2_SUBDEV_FORMAT_TRY
                                   then cfg\<lparr>try_fmt := mbus_fmt_in'\<rparr> else cfg);
                           sensor1 = (if which fm = V4L2_SUBDEV_FORMAT_TRY
                                      then sensor else sensor\<lparr>fmt := mbus_fmt_in'\<rparr>)
                       in if which fm = V4L2_SUBDEV_FORMAT_ACTIVE
                          then
                            (let sensor2 = sensor1\<lparr>current_mode := new_mode\<rparr>
                             in case gc2145_params_set client sensor2 hw of
                                  (ret', hw') \<Rightarrow> (ret', sensor2, cfg', fm', hw'))
                          else (ret, sensor1, cfg', fm', hw)))))"

subsection \<open>Power and reset\<close>

definition gpiod_set_pwdn :: "bool \<Rightarrow> hw_state \<Rightarrow> hw_state" where
  "gpiod_set_pwdn v hw = emit (GpioPwdn v) (hw\<lparr>pwdn_level := v\<rparr>)"

definition gpiod_set_reset :: "bool \<Rightarrow> hw_state \<Rightarrow> hw_state" where
  "gpiod_set_reset v hw = emit (GpioReset v) (hw\<lparr>reset_level := v\<rparr>)"

definition clk_disable_unprepare :: "hw_state \<Rightarrow> hw_state" where
  "clk_disable_unprepare hw = emit ClkDisableUnprepare (hw\<lparr>xclk_enabled := False\<rparr>)"

definition gc2145_power :: "gc2145_dev \<Rightarrow> bool \<Rightarrow> hw_state \<Rightarrow> int \<times> hw_state" where
  "gc2145_power sensor enable hw =
     (if \<not> pwdn_gpio sensor then (- 1, hw)
      else
        (let hw1 = (if enable
                    then gpiod_set_pwdn False (emit (Udelay 100) (gpiod_set_pwdn True hw))
                    else gpiod_set_pwdn True hw)
         in (0, emit (Udelay 100) hw1)))"

definition gc2145_reset :: "gc2145_dev \<Rightarrow> hw_state \<Rightarrow> int \<times> hw_state" where
  "gc2145_reset sensor hw =
     (if \<not> reset_gpio sensor then (- 1, hw)
      else
        (0, emit (Udelay 100) (gpiod_set_reset False
              (emit (Udelay 100) (gpiod_set_reset True hw)))))"

text \<open>\<open>None\<close> is a NULL \<^verbatim>\<open>sensor\<close> pointer.\<close>

definition gc2145_set_power_on :: "gc2145_dev option \<Rightarrow> hw_state \<Rightarrow> int \<times> hw_state" where
  "gc2145_set_power_on sensor_ptr hw =
     (case sensor_ptr of
        None \<Rightarrow> (- 1, hw)
      | Some sensor \<Rightarrow>
          (case gc2145_power sensor True hw of
             (r1, hw1) \<Rightarrow>
               if r1 \<noteq> 0 then (- 1, hw1)
               else
                 (case gc2145_reset sensor hw1 of
                    (r2, hw2) \<Rightarrow> if r2 \<noteq> 0 then (- 1, hw2) else (0, hw2))))"

definition gc2145_set_power_off :: "gc2145_dev \<Rightarrow> hw_state \<Rightarrow> int \<times> hw_state" where
  "gc2145_set_power_off sensor hw =
     (case gc2145_power sensor False hw of
        (r1, hw1) \<Rightarrow>
          if r1 \<noteq> 0 then (- 1, hw1)
          else (0, clk_disable_unprepare hw1))"

text \<open>
  \<^verbatim>\<open>gc2145_s_power\<close>: \<^verbatim>\<open>!on\<close> is 1 for \<^verbatim>\<open>on == 0\<close> and 0 otherwise. In both
  transitions the function called is \<^verbatim>\<open>gc2145_set_power_on\<close>. The count is updated in
  32-bit arithmetic, and \<^verbatim>\<open>WARN_ON\<close> fires when its signed value is negative.
\<close>

definition gc2145_s_power :: "gc2145_dev \<Rightarrow> s32 \<Rightarrow> hw_state \<Rightarrow> int \<times> gc2145_dev \<times> hw_state" where
  "gc2145_s_power sensor on hw =
     (let not_on = (if on = 0 then 1 else 0 :: s32)
      in case (if power_count sensor = not_on
               then gc2145_set_power_on (Some sensor) hw else (0, hw)) of
           (ret, hw1) \<Rightarrow>
             if ret \<noteq> 0 then (ret, sensor, hw1)
             else
               (let sensor' = sensor\<lparr>power_count := power_count sensor + (if on \<noteq> 0 then 1 else - 1)\<rparr>;
                    hw2 = (if sint (power_count sensor') < 0 then emit WarnOn hw1 else hw1)
                in (ret, sensor', hw2)))"

subsection \<open>Flip controls\<close>

definition gc2145_s_vflip :: "i2c_client \<Rightarrow> int \<Rightarrow> hw_state \<Rightarrow> int \<times> hw_state" where
  "gc2145_s_vflip client v hw =
     (case gc2145_write_reg client 0xfe 0x00 hw of
        (ret1, hw1) \<Rightarrow>
          if ret1 < 0 then (ret1, hw1)
          else
            (case gc2145_read_reg client 0x17 0x00 hw1 of
               (ret2, rv, hw2) \<Rightarrow>
                 if ret2 < 0 then (ret2, hw2)
                 else if v = 0 \<or> v = 1 then
                   (let rv' = (if v = 0 then rv AND 0xfd else rv OR 0x02)
                    in case gc2145_write_reg client 0x17 rv' hw2 of
                         (ret3, hw3) \<Rightarrow>
                           if ret3 < 0 then (ret3, hw3)
                           else (0, emit (Mdelay 20) hw3))
                 else (- EINVAL, hw2)))"

definition gc2145_s_hflip :: "i2c_client \<Rightarrow> int \<Rightarrow> hw_state \<Rightarrow> int \<times> hw_state" where
  "gc2145_s_hflip client v hw =
     (case gc2145_write_reg client 0xfe 0x00 hw of
        (ret1, hw1) \<Rightarrow>
          if ret1 < 0 then (ret1, hw1)
          else
            (case gc2145_read_reg client 0x17 0x00 hw1 of
               (ret2, rv, hw2) \<Rightarrow>
                 if ret2 < 0 then (ret2, hw2)
                 else if v = 0 \<or> v = 1 then
                   (let rv' = (if v = 0 then rv AND 0xfe else rv OR 0x01)
                    in case gc2145_write_reg client 0x17 rv' hw2 of
                         (ret3, hw3) \<Rightarrow>
                           if ret3 < 0 then (ret3, hw3)
                           else (0, emit (Mdelay 20) hw3))
                 else (- EINVAL, hw2)))"

subsection \<open>Identification and defaults\<close>

text \<open>
  \<^verbatim>\<open>gc2145_check_chip_id\<close>. The results of the two reads are not checked, so
  \<^verbatim>\<open>chip_id\<close> keeps its uninitialised contents \<open>id0_init\<close>, \<open>id1_init\<close> when
  a read fails. The low byte is compared with \<^verbatim>\<open>GC2145_REG_CHIP_ID_L & 0xFF\<close>, and
  the two mismatches are joined by \<^verbatim>\<open>&&\<close>, as in the source.
\<close>

definition gc2145_check_chip_id ::
  "i2c_client \<Rightarrow> gc2145_dev \<Rightarrow> u8 \<Rightarrow> u8 \<Rightarrow> hw_state \<Rightarrow> int \<times> hw_state" where
  "gc2145_check_chip_id client sensor id0_init id1_init hw =
     (case gc2145_set_power_on (Some sensor) hw of
        (ret, hw1) \<Rightarrow>
          if ret \<noteq> 0 then (ret, hw1)
          else
            (case gc2145_read_reg client GC2145_REG_CHIP_ID_H id0_init hw1 of
               (r_h, id0, hw2) \<Rightarrow>
                 (case gc2145_read_reg client GC2145_REG_CHIP_ID_L id1_init hw2 of
                    (r_l, id1, hw3) \<Rightarrow>
                      if uint id0 \<noteq> (drop_bit 8 GC2145_CHIP_ID) AND 0xFF
                         \<and> uint id1 \<noteq> uint GC2145_REG_CHIP_ID_L AND 0xFF
                      then (- ENXIO, snd (gc2145_set_power_off sensor hw3))
                      else (0, hw3))))"

definition gc2145_mode_set_default :: "gc2145_dev \<Rightarrow> gc2145_dev" where
  "gc2145_mode_set_default sensor =
     (let f0 = fmt sensor;
          f1 = f0\<lparr>mbus_code := code (gc2145_format_list ! 0),
                  mbus_colorspace := colorspace (gc2145_format_list ! 0)\<rparr>;
          f2 = f1\<lparr>ycbcr_enc := V4L2_MAP_YCBCR_ENC_DEFAULT (mbus_colorspace f1)\<rparr>;
          f3 = f2\<lparr>quantization :=
                 V4L2_MAP_QUANTIZATION_DEFAULT True (mbus_colorspace f2) (ycbcr_enc f2)\<rparr>;
          f4 = f3\<lparr>xfer_func := V4L2_MAP_XFER_FUNC_DEFAULT (mbus_colorspace f3)\<rparr>;
          f5 = f4\<lparr>width := hact (gc2145_mode_list ! 2), height := vact (gc2145_mode_list ! 2),
                  field := V4L2_FIELD_NONE\<rparr>;
          s1 = sensor\<lparr>fmt := f5, current_mode := Some (gc2145_mode_list ! 2)\<rparr>
      in s1\<lparr>last_mode := current_mode s1\<rparr>)"

section \<open>Observing a run\<close>

text \<open>
  Functions used to state the properties: the events a list of table rows stands for
  (a delay for a row at the sentinel address, a register write for every other row),
  the hardware after these events, the register writes and the total delay recorded in
  a trace, and the rows of a program that are register writes.
\<close>

definition events_of :: "gc2145_reg list \<Rightarrow> event list" where
  "events_of rs =
     map (\<lambda>r. if addr r = GC2145_REG_NULL then Mdelay (unat (val r))
              else I2cWrite (addr r) (val r)) rs"

definition hw_after :: "hw_state \<Rightarrow> gc2145_reg list \<Rightarrow> hw_state" where
  "hw_after hw rs = hw\<lparr>trace := trace hw @ events_of rs\<rparr>"

fun bus_writes :: "event list \<Rightarrow> (u8 \<times> u8) list" where
  "bus_writes [] = []"
| "bus_writes (I2cWrite a v # es) = (a, v) # bus_writes es"
| "bus_writes (e # es) = bus_writes es"


definition program_writes :: "gc2145_reg list \<Rightarrow> (u8 \<times> u8) list" where
  "program_writes rs =
     map (\<lambda>r. (addr r, val r)) (filter (\<lambda>r. addr r \<noteq> GC2145_REG_NULL) rs)"

text \<open>
  The register program an active \<^const>\<open>gc2145_set_fmt\<close> applies through
  \<^const>\<open>gc2145_params_set\<close>: the init program, the page select and the output-format
  row of the format held in \<^verbatim>\<open>sensor->fmt\<close>.
\<close>

definition params_program :: "gc2145_dev \<Rightarrow> gc2145_reg list" where
  "params_program sensor =
     gc2145_init_regs
     @ [\<lparr>addr = GC2145_REG_PAGE_SELECT, val = 0x00\<rparr>,
        fmt_reg (gc2145_find_pixfmt (mbus_code (fmt sensor))) ! 0]"

text \<open>The components of the result of \<^const>\<open>gc2145_set_fmt\<close>.\<close>

definition set_fmt_ret ::
  "int \<times> gc2145_dev \<times> v4l2_subdev_pad_config \<times> v4l2_subdev_format \<times> hw_state \<Rightarrow> int" where
  "set_fmt_ret r = fst r"

definition set_fmt_dev ::
  "int \<times> gc2145_dev \<times> v4l2_subdev_pad_config \<times> v4l2_subdev_format \<times> hw_state \<Rightarrow> gc2145_dev" where
  "set_fmt_dev r = fst (snd r)"

definition set_fmt_cfg ::
  "int \<times> gc2145_dev \<times> v4l2_subdev_pad_config \<times> v4l2_subdev_format \<times> hw_state
   \<Rightarrow> v4l2_subdev_pad_config" where
  "set_fmt_cfg r = fst (snd (snd r))"

definition set_fmt_format ::
  "int \<times> gc2145_dev \<times> v4l2_subdev_pad_config \<times> v4l2_subdev_format \<times> hw_state
   \<Rightarrow> v4l2_mbus_framefmt" where
  "set_fmt_format r = format (fst (snd (snd (snd r))))"

definition set_fmt_hw ::
  "int \<times> gc2145_dev \<times> v4l2_subdev_pad_config \<times> v4l2_subdev_format \<times> hw_state \<Rightarrow> hw_state" where
  "set_fmt_hw r = snd (snd (snd (snd r)))"

text \<open>
  The format \<^const>\<open>gc2145_set_fmt\<close> computes from the caller's: the second component
  of what \<^const>\<open>gc2145_try_fmt_internal\<close> returns after the width and height have been
  overwritten.
\<close>

definition set_fmt_resolved :: "v4l2_mbus_framefmt \<Rightarrow> v4l2_mbus_framefmt" where
  "set_fmt_resolved f =
     fst (snd (gc2145_try_fmt_internal (f\<lparr>width := 800, height := 600\<rparr>) True))"

text \<open>The events of \<^const>\<open>gc2145_set_power_on\<close>: the power-down pulse, then the reset pulse.\<close>

definition power_on_events :: "event list" where
  "power_on_events =
     [GpioPwdn True, Udelay 100, GpioPwdn False, Udelay 100,
      GpioReset True, Udelay 100, GpioReset False, Udelay 100]"

subsection \<open>Concrete devices, transports and requests\<close>

text \<open>
  A zeroed frame format, and the device structure as \<^verbatim>\<open>gc2145_probe\<close> leaves it:
  allocated zeroed, defaults set by \<^const>\<open>gc2145_mode_set_default\<close>, both GPIO
  descriptors present.
\<close>

definition zero_framefmt :: v4l2_mbus_framefmt where
  "zero_framefmt = \<lparr>width = 0, height = 0, mbus_code = 0, field = 0, mbus_colorspace = 0,
     ycbcr_enc = 0, quantization = 0, xfer_func = 0\<rparr>"

definition probed_dev :: gc2145_dev where
  "probed_dev =
     (gc2145_mode_set_default
        \<lparr>fmt = zero_framefmt, reset_gpio = False, pwdn_gpio = False,
         current_mode = None, last_mode = None, power_count = 0\<rparr>)
       \<lparr>pwdn_gpio := True, reset_gpio := True\<rparr>"

definition zero_cfg :: v4l2_subdev_pad_config where
  "zero_cfg = \<lparr>try_fmt = zero_framefmt\<rparr>"

text \<open>The hardware with the clock enabled, both lines high and nothing recorded yet.\<close>

definition hw_init :: hw_state where
  "hw_init = \<lparr>pwdn_level = True, reset_level = True, xclk_enabled = True, trace = []\<rparr>"

text \<open>The hardware of a powered device: both lines low, the clock enabled.\<close>

definition hw_on :: hw_state where
  "hw_on = \<lparr>pwdn_level = False, reset_level = False, xclk_enabled = True, trace = []\<rparr>"

text \<open>A transport on which every transfer succeeds; reads return \<open>b\<close>.\<close>

definition bus_ok :: "u8 \<Rightarrow> i2c_client" where
  "bus_ok b = \<lparr>i2c_write = (\<lambda>hw a v. 1), i2c_read = (\<lambda>hw a. (2, b))\<rparr>"

text \<open>A transport on which every transfer fails with \<^verbatim>\<open>-EIO\<close>.\<close>

definition bus_dead :: i2c_client where
  "bus_dead = \<lparr>i2c_write = (\<lambda>hw a v. - 5), i2c_read = (\<lambda>hw a. (- 5, 0))\<rparr>"

text \<open>
  A transport that fails the transfer issued when \<open>n\<close> events have been recorded,
  and no other.
\<close>

definition bus_fail_at :: "nat \<Rightarrow> i2c_client" where
  "bus_fail_at n =
     \<lparr>i2c_write = (\<lambda>hw a v. if length (trace hw) = n then - 5 else 1),
      i2c_read = (\<lambda>hw a. if length (trace hw) = n then (- 5, 0) else (2, 0))\<rparr>"

text \<open>A device that answers the two identifier reads with \<open>h\<close> and \<open>l\<close>.\<close>

definition bus_chip :: "u8 \<Rightarrow> u8 \<Rightarrow> i2c_client" where
  "bus_chip h l =
     \<lparr>i2c_write = (\<lambda>hw a v. 1),
      i2c_read = (\<lambda>hw a. (2, if a = GC2145_REG_CHIP_ID_H then h else l))\<rparr>"

text \<open>A short program: a page select, a 10 ms delay row and two register writes.\<close>

definition demo_regs :: "gc2145_reg list" where
  "demo_regs =
     [\<lparr>addr = 0xfe, val = 0x00\<rparr>, \<lparr>addr = GC2145_REG_NULL, val = 0x0a\<rparr>,
      \<lparr>addr = 0x84, val = 0x02\<rparr>, \<lparr>addr = 0x17, val = 0x01\<rparr>]"


text \<open>A request on pad \<open>p\<close> for \<open>w\<close> by \<open>h\<close> pixels in format \<open>c\<close>.\<close>

definition request :: "u32 \<Rightarrow> u32 \<Rightarrow> u32 \<Rightarrow> u32 \<Rightarrow> u32 \<Rightarrow> v4l2_subdev_format" where
  "request wh p w h c =
     \<lparr>which = wh, pad = p, format = zero_framefmt\<lparr>width := w, height := h, mbus_code := c\<rparr>\<rparr>"

text \<open>Frame-size and format-code enumeration requests.\<close>

definition fse_request :: "u32 \<Rightarrow> u32 \<Rightarrow> u32 \<Rightarrow> v4l2_subdev_frame_size_enum" where
  "fse_request p i c =
     \<lparr>fse_index = i, fse_pad = p, fse_code = c,
      min_width = 0, max_width = 0, min_height = 0, max_height = 0\<rparr>"

definition mce_request :: "u32 \<Rightarrow> u32 \<Rightarrow> v4l2_subdev_mbus_code_enum" where
  "mce_request p i = \<lparr>mce_pad = p, mce_index = i, mce_code = 0\<rparr>"

section \<open>Properties of format resolution\<close>

text \<open>
  The equation of the search loop is taken out of the simplifier and unfolded one step
  at a time through the three lemmas below.
\<close>

declare gc2145_find_pixfmt_loop.simps [simp del]

lemma find_pixfmt_loop_step:
  "i < length gc2145_format_list \<Longrightarrow> code (gc2145_format_list ! i) \<noteq> c \<Longrightarrow>
   gc2145_find_pixfmt_loop c i = gc2145_find_pixfmt_loop c (Suc i)"
  by (subst gc2145_find_pixfmt_loop.simps) simp

lemma find_pixfmt_loop_hit:
  "i < length gc2145_format_list \<Longrightarrow> code (gc2145_format_list ! i) = c \<Longrightarrow>
   gc2145_find_pixfmt_loop c i = i"
  by (subst gc2145_find_pixfmt_loop.simps) simp

lemma find_pixfmt_loop_end:
  "\<not> i < length gc2145_format_list \<Longrightarrow> gc2145_find_pixfmt_loop c i = i"
  by (subst gc2145_find_pixfmt_loop.simps) simp

lemma find_pixfmt_loop_bounds:
  "i \<le> length gc2145_format_list \<Longrightarrow>
   i \<le> gc2145_find_pixfmt_loop c i \<and> gc2145_find_pixfmt_loop c i \<le> length gc2145_format_list"
proof (induction c i rule: gc2145_find_pixfmt_loop.induct)
  case (1 c i)
  consider (step) "i < length gc2145_format_list" "code (gc2145_format_list ! i) \<noteq> c"
    | (hit) "i < length gc2145_format_list" "code (gc2145_format_list ! i) = c"
    | (past) "\<not> i < length gc2145_format_list" by blast
  then show ?case
  proof cases
    case step
    then have "Suc i \<le> gc2145_find_pixfmt_loop c (Suc i) \<and>
        gc2145_find_pixfmt_loop c (Suc i) \<le> length gc2145_format_list"
      using "1.IH" by simp
    then show ?thesis using find_pixfmt_loop_step [OF step] by simp
  next
    case hit
    then show ?thesis using find_pixfmt_loop_hit [OF hit] by simp
  next
    case past
    then show ?thesis using find_pixfmt_loop_end [OF past] "1.prems" by simp
  qed
qed

lemma find_pixfmt_loop_found:
  "gc2145_find_pixfmt_loop c i < length gc2145_format_list \<Longrightarrow>
   code (gc2145_format_list ! gc2145_find_pixfmt_loop c i) = c"
proof (induction c i rule: gc2145_find_pixfmt_loop.induct)
  case (1 c i)
  consider (step) "i < length gc2145_format_list" "code (gc2145_format_list ! i) \<noteq> c"
    | (hit) "i < length gc2145_format_list" "code (gc2145_format_list ! i) = c"
    | (past) "\<not> i < length gc2145_format_list" by blast
  then show ?case
  proof cases
    case step
    note eq = find_pixfmt_loop_step [OF step]
    from "1.prems" eq have "gc2145_find_pixfmt_loop c (Suc i) < length gc2145_format_list"
      by simp
    with "1.IH" step eq show ?thesis by simp
  next
    case hit
    then show ?thesis using find_pixfmt_loop_hit [OF hit] by simp
  next
    case past
    then show ?thesis using find_pixfmt_loop_end [OF past] "1.prems" by simp
  qed
qed

lemma find_pixfmt_loop_first:
  "i \<le> j \<Longrightarrow> j < gc2145_find_pixfmt_loop c i \<Longrightarrow> code (gc2145_format_list ! j) \<noteq> c"
proof (induction c i rule: gc2145_find_pixfmt_loop.induct)
  case (1 c i)
  consider (step) "i < length gc2145_format_list" "code (gc2145_format_list ! i) \<noteq> c"
    | (hit) "i < length gc2145_format_list" "code (gc2145_format_list ! i) = c"
    | (past) "\<not> i < length gc2145_format_list" by blast
  then show ?case
  proof cases
    case step
    note eq = find_pixfmt_loop_step [OF step]
    show ?thesis
    proof (cases "j = i")
      case True
      with step show ?thesis by simp
    next
      case False
      with "1.prems" have "Suc i \<le> j" by simp
      moreover from "1.prems" eq have "j < gc2145_find_pixfmt_loop c (Suc i)" by simp
      ultimately show ?thesis using "1.IH" step by simp
    qed
  next
    case hit
    then show ?thesis using find_pixfmt_loop_hit [OF hit] "1.prems" by simp
  next
    case past
    then show ?thesis using find_pixfmt_loop_end [OF past] "1.prems" by simp
  qed
qed

lemma find_pixfmt_index_absent:
  assumes "c \<notin> code ` set gc2145_format_list"
  shows "gc2145_find_pixfmt_index c = 0"
proof -
  let ?r = "gc2145_find_pixfmt_loop c 0"
  have "\<not> ?r < length gc2145_format_list"
  proof
    assume lt: "?r < length gc2145_format_list"
    then have "code (gc2145_format_list ! ?r) = c" by (rule find_pixfmt_loop_found)
    moreover from lt have "gc2145_format_list ! ?r \<in> set gc2145_format_list" by simp
    ultimately show False using assms by (metis imageI)
  qed
  then show ?thesis by (simp add: gc2145_find_pixfmt_index_def Let_def)
qed

lemma find_pixfmt_index_present:
  assumes "c \<in> code ` set gc2145_format_list"
  shows "gc2145_find_pixfmt_index c < length gc2145_format_list
         \<and> code (gc2145_format_list ! gc2145_find_pixfmt_index c) = c
         \<and> (\<forall>j < gc2145_find_pixfmt_index c. code (gc2145_format_list ! j) \<noteq> c)"
proof -
  let ?r = "gc2145_find_pixfmt_loop c 0"
  from assms obtain k where k: "k < length gc2145_format_list" "code (gc2145_format_list ! k) = c"
    by (auto simp: in_set_conv_nth)
  have le: "?r \<le> length gc2145_format_list"
    using find_pixfmt_loop_bounds [of 0 c] by simp
  have lt: "?r < length gc2145_format_list"
  proof (rule ccontr)
    assume "\<not> ?r < length gc2145_format_list"
    with le k(1) have "k < ?r" by simp
    with k show False using find_pixfmt_loop_first [of 0 k c] by simp
  qed
  then have idx: "gc2145_find_pixfmt_index c = ?r"
    by (simp add: gc2145_find_pixfmt_index_def Let_def)
  have "\<forall>j < ?r. code (gc2145_format_list ! j) \<noteq> c"
    using find_pixfmt_loop_first [of 0 _ c] by simp
  with lt idx find_pixfmt_loop_found [OF lt] show ?thesis by simp
qed

lemma format_list_length: "length gc2145_format_list = 6"
  by (simp add: gc2145_format_list_def)

lemma mode_list_length: "length gc2145_mode_list = 4"
  by (simp add: gc2145_mode_list_def)

lemma find_mode_800_600: "gc2145_find_mode 800 600 True = Some (gc2145_mode_list ! 2)"
  by (simp add: gc2145_find_mode_def v4l2_find_nearest_size_def gc2145_mode_list_def abs_s32_def)

section \<open>The format resolved by a set-format request\<close>

lemma mode_svga:
  "hact (gc2145_mode_list ! 2) = 800" "vact (gc2145_mode_list ! 2) = 600"
  "mode_id (gc2145_mode_list ! 2) = GC2145_MODE_SVGA_800_600"
  by (simp_all add: gc2145_mode_list_def)

lemma try_fmt_internal_svga:
  "gc2145_try_fmt_internal (f\<lparr>width := 800, height := 600\<rparr>) True =
     (0, set_fmt_resolved f, Some (gc2145_mode_list ! 2))"
  by (simp add: set_fmt_resolved_def gc2145_try_fmt_internal_def find_mode_800_600 Let_def)

lemma set_fmt_resolved_fields:
  "width (set_fmt_resolved f) = 800"
  "height (set_fmt_resolved f) = 600"
  "field (set_fmt_resolved f) = V4L2_FIELD_NONE"
  "mbus_code (set_fmt_resolved f) = code (gc2145_find_pixfmt (mbus_code f))"
  "mbus_colorspace (set_fmt_resolved f) = colorspace (gc2145_find_pixfmt (mbus_code f))"
  by (simp_all add: set_fmt_resolved_def gc2145_try_fmt_internal_def find_mode_800_600 Let_def
        mode_svga)

lemma set_fmt_try:
  assumes "pad fm = 0" "which fm = V4L2_SUBDEV_FORMAT_TRY"
  shows "gc2145_set_fmt client sensor cfg fm hw =
    (0, sensor, cfg\<lparr>try_fmt := set_fmt_resolved (format fm)\<rparr>,
     fm\<lparr>format := set_fmt_resolved (format fm)\<rparr>, hw)"
  using assms
  by (simp add: gc2145_set_fmt_def try_fmt_internal_svga Let_def
        V4L2_SUBDEV_FORMAT_TRY_def V4L2_SUBDEV_FORMAT_ACTIVE_def)

lemma set_fmt_active:
  assumes "pad fm = 0" "which fm = V4L2_SUBDEV_FORMAT_ACTIVE"
  shows "gc2145_set_fmt client sensor cfg fm hw =
    (fst (gc2145_params_set client
            (sensor\<lparr>fmt := set_fmt_resolved (format fm),
                    current_mode := Some (gc2145_mode_list ! 2)\<rparr>) hw),
     sensor\<lparr>fmt := set_fmt_resolved (format fm), current_mode := Some (gc2145_mode_list ! 2)\<rparr>,
     cfg, fm\<lparr>format := set_fmt_resolved (format fm)\<rparr>,
     snd (gc2145_params_set client
            (sensor\<lparr>fmt := set_fmt_resolved (format fm),
                    current_mode := Some (gc2145_mode_list ! 2)\<rparr>) hw))"
  using assms
  by (simp add: gc2145_set_fmt_def try_fmt_internal_svga Let_def
        V4L2_SUBDEV_FORMAT_TRY_def V4L2_SUBDEV_FORMAT_ACTIVE_def split: prod.split)

lemma set_fmt_format_pad0:
  assumes "pad fm = 0"
  shows "set_fmt_format (gc2145_set_fmt client sensor cfg fm hw) = set_fmt_resolved (format fm)"
  using assms
  by (simp add: gc2145_set_fmt_def try_fmt_internal_svga Let_def set_fmt_format_def
        split: prod.split)

section \<open>Properties of register programs\<close>

lemma hw_after_Nil: "hw_after hw [] = hw"
  by (simp add: hw_after_def events_of_def)

lemma hw_after_Cons_delay:
  "addr r = GC2145_REG_NULL \<Longrightarrow>
   hw_after hw (r # rs) = hw_after (emit (Mdelay (unat (val r))) hw) rs"
  by (simp add: hw_after_def events_of_def emit_def)

lemma hw_after_Cons_write:
  "addr r \<noteq> GC2145_REG_NULL \<Longrightarrow>
   hw_after hw (r # rs) = hw_after (emit (I2cWrite (addr r) (val r)) hw) rs"
  by (simp add: hw_after_def events_of_def emit_def)

lemma hw_after_append: "hw_after hw (xs @ ys) = hw_after (hw_after hw xs) ys"
  by (simp add: hw_after_def events_of_def)

lemma hw_after_trace: "trace (hw_after hw rs) = trace hw @ events_of rs"
  by (simp add: hw_after_def)

lemma write_reg_ok:
  "0 \<le> i2c_write client hw a v \<Longrightarrow>
   gc2145_write_reg client a v hw = (0, emit (I2cWrite a v) hw)"
  by (simp add: gc2145_write_reg_def Let_def)

lemma write_reg_fail:
  "i2c_write client hw a v < 0 \<Longrightarrow>
   gc2145_write_reg client a v hw = (i2c_write client hw a v, emit (I2cWrite a v) hw)"
  by (simp add: gc2145_write_reg_def Let_def)

text \<open>While the writes succeed, the loop moves down the program.\<close>

lemma write_array_loop_prefix:
  assumes "i \<le> length rs"
    and "\<forall>j<i. addr (rs ! j) \<noteq> GC2145_REG_NULL \<longrightarrow>
           0 \<le> i2c_write client (hw_after hw (take j rs)) (addr (rs ! j)) (val (rs ! j))"
  shows "gc2145_write_array_loop client rs 0 hw =
         gc2145_write_array_loop client (drop i rs) 0 (hw_after hw (take i rs))"
  using assms
proof (induction rs arbitrary: hw i)
  case Nil
  then show ?case by (simp add: hw_after_Nil)
next
  case (Cons r rs)
  show ?case
  proof (cases i)
    case 0
    then show ?thesis by (simp add: hw_after_Nil)
  next
    case (Suc i')
    from Cons.prems(1) Suc have len: "i' \<le> length rs" by simp
    show ?thesis
    proof (cases "addr r = GC2145_REG_NULL")
      case True
      let ?hw1 = "emit (Mdelay (unat (val r))) hw"
      have pre: "\<forall>j<i'. addr (rs ! j) \<noteq> GC2145_REG_NULL \<longrightarrow>
           0 \<le> i2c_write client (hw_after ?hw1 (take j rs)) (addr (rs ! j)) (val (rs ! j))"
      proof (intro allI impI)
        fix j assume j: "j < i'" "addr (rs ! j) \<noteq> GC2145_REG_NULL"
        with Cons.prems(2) Suc
        have "0 \<le> i2c_write client (hw_after hw (take (Suc j) (r # rs)))
                 (addr ((r # rs) ! Suc j)) (val ((r # rs) ! Suc j))"
          by (metis Suc_less_eq nth_Cons_Suc)
        then show "0 \<le> i2c_write client (hw_after ?hw1 (take j rs)) (addr (rs ! j)) (val (rs ! j))"
          using True by (simp add: hw_after_Cons_delay)
      qed
      from Cons.IH [OF len pre] True Suc show ?thesis
        by (simp add: hw_after_Cons_delay)
    next
      case False
      let ?hw1 = "emit (I2cWrite (addr r) (val r)) hw"
      from Cons.prems(2) Suc False have ok: "0 \<le> i2c_write client hw (addr r) (val r)"
        by (auto simp: hw_after_Nil dest: spec [of _ 0])
      have pre: "\<forall>j<i'. addr (rs ! j) \<noteq> GC2145_REG_NULL \<longrightarrow>
           0 \<le> i2c_write client (hw_after ?hw1 (take j rs)) (addr (rs ! j)) (val (rs ! j))"
      proof (intro allI impI)
        fix j assume j: "j < i'" "addr (rs ! j) \<noteq> GC2145_REG_NULL"
        with Cons.prems(2) Suc
        have "0 \<le> i2c_write client (hw_after hw (take (Suc j) (r # rs)))
                 (addr ((r # rs) ! Suc j)) (val ((r # rs) ! Suc j))"
          by (metis Suc_less_eq nth_Cons_Suc)
        then show "0 \<le> i2c_write client (hw_after ?hw1 (take j rs)) (addr (rs ! j)) (val (rs ! j))"
          using False by (simp add: hw_after_Cons_write)
      qed
      from Cons.IH [OF len pre] False Suc ok show ?thesis
        by (simp add: hw_after_Cons_write write_reg_ok)
    qed
  qed
qed

lemma write_array_loop_all_ok:
  assumes "\<forall>j<length rs. addr (rs ! j) \<noteq> GC2145_REG_NULL \<longrightarrow>
           0 \<le> i2c_write client (hw_after hw (take j rs)) (addr (rs ! j)) (val (rs ! j))"
  shows "gc2145_write_array_loop client rs 0 hw = (0, hw_after hw rs)"
  using write_array_loop_prefix [of "length rs" rs client hw] assms by simp

lemma write_array_loop_fail_at:
  assumes "i < length rs" and "addr (rs ! i) \<noteq> GC2145_REG_NULL"
    and "i2c_write client (hw_after hw (take i rs)) (addr (rs ! i)) (val (rs ! i)) < 0"
    and "\<forall>j<i. addr (rs ! j) \<noteq> GC2145_REG_NULL \<longrightarrow>
           0 \<le> i2c_write client (hw_after hw (take j rs)) (addr (rs ! j)) (val (rs ! j))"
  shows "gc2145_write_array_loop client rs 0 hw =
         (i2c_write client (hw_after hw (take i rs)) (addr (rs ! i)) (val (rs ! i)),
          hw_after hw (take (Suc i) rs))"
proof -
  from assms(1) have d: "drop i rs = rs ! i # drop (Suc i) rs"
    by (simp add: Cons_nth_drop_Suc)
  from assms(1) have t: "take (Suc i) rs = take i rs @ [rs ! i]"
    by (simp add: take_Suc_conv_app_nth)
  have "gc2145_write_array_loop client rs 0 hw =
        gc2145_write_array_loop client (drop i rs) 0 (hw_after hw (take i rs))"
    using assms(1,4) by (intro write_array_loop_prefix) simp_all
  also have "\<dots> = (i2c_write client (hw_after hw (take i rs)) (addr (rs ! i)) (val (rs ! i)),
          emit (I2cWrite (addr (rs ! i)) (val (rs ! i))) (hw_after hw (take i rs)))"
    using assms(2,3) by (simp add: d write_reg_fail)
  also have "emit (I2cWrite (addr (rs ! i)) (val (rs ! i))) (hw_after hw (take i rs)) =
             hw_after hw (take (Suc i) rs)"
    using assms(2) by (simp add: t hw_after_append hw_after_Cons_write hw_after_Nil)
  finally show ?thesis .
qed

lemma bus_writes_append: "bus_writes (xs @ ys) = bus_writes xs @ bus_writes ys"
  by (induction xs rule: bus_writes.induct) simp_all


lemma bus_writes_events_of: "bus_writes (events_of rs) = program_writes rs"
  by (induction rs) (simp_all add: events_of_def program_writes_def)

lemma program_writes_take:
  "program_writes (take n rs) = take (length (program_writes (take n rs))) (program_writes rs)"
proof -
  have "program_writes rs = program_writes (take n rs) @ program_writes (drop n rs)"
    unfolding program_writes_def by (metis append_take_drop_id filter_append map_append)
  then show ?thesis by simp
qed

lemma write_array_all_ok:
  assumes "\<forall>h a v. 0 \<le> i2c_write client h a v" and "rs \<noteq> []"
  shows "gc2145_write_array (Some client) (Some rs) hw = (0, hw_after hw rs)"
  using assms write_array_loop_all_ok [of rs client hw]
  by (simp add: gc2145_write_array_def)

lemma init_regs_not_empty: "gc2145_init_regs \<noteq> []"
  by (simp add: gc2145_init_regs_def)

lemma params_set_all_ok:
  assumes "\<forall>h a v. 0 \<le> i2c_write client h a v"
  shows "fst (gc2145_params_set client sensor hw) = 0"
  using assms
  by (simp add: gc2145_params_set_def Let_def write_array_all_ok init_regs_not_empty
        write_reg_ok)

lemma find_pixfmt_absent:
  "c \<notin> code ` set gc2145_format_list \<Longrightarrow> gc2145_find_pixfmt c = gc2145_format_list ! 0"
  by (simp add: gc2145_find_pixfmt_def find_pixfmt_index_absent)

text \<open>
  Claim C7. A code that no catalog entry carries resolves to entry 0, the default, and
  \<^const>\<open>gc2145_set_fmt\<close> on pad 0 then returns the default entry's code; it returns 0
  for a trial request, and for any request when every register write succeeds, so it
  never fails because of the code. A code present in the catalog resolves to the first
  entry that carries it.
\<close>

theorem find_pixfmt_default_or_first:
  "(c \<notin> code ` set gc2145_format_list \<longrightarrow>
      gc2145_find_pixfmt c = gc2145_format_list ! 0
      \<and> (pad fm = 0 \<and> mbus_code (format fm) = c \<longrightarrow>
            mbus_code (set_fmt_format (gc2145_set_fmt client sensor cfg fm hw))
              = code (gc2145_format_list ! 0)
            \<and> (which fm = V4L2_SUBDEV_FORMAT_TRY \<or> (\<forall>h a v. 0 \<le> i2c_write client h a v)
                 \<longrightarrow> set_fmt_ret (gc2145_set_fmt client sensor cfg fm hw) = 0)))
   \<and> (c \<in> code ` set gc2145_format_list \<longrightarrow>
        (\<exists>i < length gc2145_format_list.
            gc2145_find_pixfmt c = gc2145_format_list ! i
            \<and> code (gc2145_format_list ! i) = c
            \<and> (\<forall>j<i. code (gc2145_format_list ! j) \<noteq> c)))"
proof (intro conjI impI)
  assume "c \<notin> code ` set gc2145_format_list"
  then show "gc2145_find_pixfmt c = gc2145_format_list ! 0" by (rule find_pixfmt_absent)
next
  assume absent: "c \<notin> code ` set gc2145_format_list" and req: "pad fm = 0 \<and> mbus_code (format fm) = c"
  then show "mbus_code (set_fmt_format (gc2145_set_fmt client sensor cfg fm hw))
              = code (gc2145_format_list ! 0)"
    by (simp add: set_fmt_format_pad0 set_fmt_resolved_fields find_pixfmt_absent)
next
  assume req: "pad fm = 0 \<and> mbus_code (format fm) = c"
    and ok: "which fm = V4L2_SUBDEV_FORMAT_TRY \<or> (\<forall>h a v. 0 \<le> i2c_write client h a v)"
  show "set_fmt_ret (gc2145_set_fmt client sensor cfg fm hw) = 0"
  proof (cases "which fm = V4L2_SUBDEV_FORMAT_TRY")
    case True
    with req show ?thesis by (simp add: set_fmt_try set_fmt_ret_def)
  next
    case False
    with ok have all: "\<forall>h a v. 0 \<le> i2c_write client h a v" by blast
    show ?thesis
    proof (cases "which fm = V4L2_SUBDEV_FORMAT_ACTIVE")
      case True
      with req all show ?thesis
        by (simp add: set_fmt_active set_fmt_ret_def params_set_all_ok)
    next
      case False
      with \<open>which fm \<noteq> V4L2_SUBDEV_FORMAT_TRY\<close> req show ?thesis
        by (simp add: gc2145_set_fmt_def try_fmt_internal_svga Let_def set_fmt_ret_def)
    qed
  qed
next
  assume "c \<in> code ` set gc2145_format_list"
  from find_pixfmt_index_present [OF this]
  show "\<exists>i < length gc2145_format_list.
            gc2145_find_pixfmt c = gc2145_format_list ! i
            \<and> code (gc2145_format_list ! i) = c
            \<and> (\<forall>j<i. code (gc2145_format_list ! j) \<noteq> c)"
    unfolding gc2145_find_pixfmt_def by blast
qed

lemma codes_eval:
  "code ` set gc2145_format_list = {0x2006, 0x2007, 0x2008, 0x2009, 0x1007, 0x3001}"
  by (simp add: gc2145_format_list_def MEDIA_BUS_FMT_YUYV8_2X8_def MEDIA_BUS_FMT_UYVY8_2X8_def
     MEDIA_BUS_FMT_VYUY8_2X8_def MEDIA_BUS_FMT_YVYU8_2X8_def MEDIA_BUS_FMT_RGB565_2X8_BE_def
     MEDIA_BUS_FMT_SBGGR8_1X8_def)

theorem find_pixfmt_default_or_first_witness:
  "gc2145_find_pixfmt 0x1234 = gc2145_format_list ! 0
   \<and> mbus_code (set_fmt_format (gc2145_set_fmt (bus_ok 0) probed_dev zero_cfg
         \<lparr>which = V4L2_SUBDEV_FORMAT_ACTIVE, pad = 0,
          format = zero_framefmt\<lparr>width := 640, height := 480, mbus_code := 0x1234\<rparr>\<rparr> hw_init))
       = MEDIA_BUS_FMT_UYVY8_2X8
   \<and> set_fmt_ret (gc2145_set_fmt (bus_ok 0) probed_dev zero_cfg
         \<lparr>which = V4L2_SUBDEV_FORMAT_ACTIVE, pad = 0,
          format = zero_framefmt\<lparr>width := 640, height := 480, mbus_code := 0x1234\<rparr>\<rparr> hw_init) = 0
   \<and> gc2145_find_pixfmt MEDIA_BUS_FMT_YUYV8_2X8 = gc2145_format_list ! 2"
proof -
  let ?fm = "\<lparr>which = V4L2_SUBDEV_FORMAT_ACTIVE, pad = 0,
          format = zero_framefmt\<lparr>width := 640, height := 480, mbus_code := 0x1234\<rparr>\<rparr>"
  have absent: "(0x1234 :: u32) \<notin> code ` set gc2145_format_list"
    by (simp add: codes_eval)
  have req: "pad ?fm = 0 \<and> mbus_code (format ?fm) = 0x1234"
    by (simp add: zero_framefmt_def)
  have ok: "\<forall>h a v. 0 \<le> i2c_write (bus_ok 0) h a v" by (simp add: bus_ok_def)
  have present: "MEDIA_BUS_FMT_YUYV8_2X8 \<in> code ` set gc2145_format_list"
    by (simp add: codes_eval MEDIA_BUS_FMT_YUYV8_2X8_def)
  have e0: "code (gc2145_format_list ! 0) = MEDIA_BUS_FMT_UYVY8_2X8"
    by (simp add: gc2145_format_list_def)
  from find_pixfmt_default_or_first [of "0x1234" ?fm "bus_ok 0" probed_dev zero_cfg hw_init]
    absent req ok e0
  have a: "gc2145_find_pixfmt 0x1234 = gc2145_format_list ! 0"
    and b: "mbus_code (set_fmt_format (gc2145_set_fmt (bus_ok 0) probed_dev zero_cfg ?fm hw_init))
       = MEDIA_BUS_FMT_UYVY8_2X8"
    and c: "set_fmt_ret (gc2145_set_fmt (bus_ok 0) probed_dev zero_cfg ?fm hw_init) = 0"
    by simp_all
  from find_pixfmt_default_or_first [of MEDIA_BUS_FMT_YUYV8_2X8 ?fm "bus_ok 0" probed_dev zero_cfg hw_init]
    present
  obtain i where i: "i < length gc2145_format_list"
     "gc2145_find_pixfmt MEDIA_BUS_FMT_YUYV8_2X8 = gc2145_format_list ! i"
     "code (gc2145_format_list ! i) = MEDIA_BUS_FMT_YUYV8_2X8"
    by blast
  from i(1) have "i \<in> {0, 1, 2, 3, 4, 5}" by (auto simp: format_list_length)
  with i(3) have "i = 2"
    by (auto simp: gc2145_format_list_def MEDIA_BUS_FMT_YUYV8_2X8_def MEDIA_BUS_FMT_UYVY8_2X8_def
     MEDIA_BUS_FMT_VYUY8_2X8_def MEDIA_BUS_FMT_YVYU8_2X8_def MEDIA_BUS_FMT_RGB565_2X8_BE_def
     MEDIA_BUS_FMT_SBGGR8_1X8_def)
  with i(2) a b c show ?thesis by simp
qed

text \<open>
  Claim C8. Let row \<open>i\<close> of the program be a register write that the transport
  fails with \<open>err\<close>, every register write before it having succeeded, and let it be
  the \<open>k\<close>-th register write of the program. Then \<^const>\<open>gc2145_write_array\<close>
  returns \<open>err\<close>; the hardware has seen the rows up to and including row \<open>i\<close>
  and none after it; the register writes handed to the transport are the first \<open>k\<close>
  writes of the program, in program order, the last of them (handed over once) being
  the failing one.
\<close>

theorem write_array_fail_fast:
  assumes "i < length rs"
    and "addr (rs ! i) \<noteq> GC2145_REG_NULL"
    and "i2c_write client (hw_after hw (take i rs)) (addr (rs ! i)) (val (rs ! i)) = err"
    and "err < 0"
    and "\<forall>j<i. addr (rs ! j) \<noteq> GC2145_REG_NULL \<longrightarrow>
           0 \<le> i2c_write client (hw_after hw (take j rs)) (addr (rs ! j)) (val (rs ! j))"
    and "k = length (program_writes (take (Suc i) rs))"
  shows "gc2145_write_array (Some client) (Some rs) hw = (err, hw_after hw (take (Suc i) rs))
     \<and> bus_writes (trace (snd (gc2145_write_array (Some client) (Some rs) hw)))
         = bus_writes (trace hw) @ take k (program_writes rs)
     \<and> 0 < k \<and> k \<le> length (program_writes rs)
     \<and> program_writes rs ! (k - 1) = (addr (rs ! i), val (rs ! i))"
proof -
  from assms(1) have ne: "length rs \<noteq> 0" by auto
  have run: "gc2145_write_array (Some client) (Some rs) hw =
             (err, hw_after hw (take (Suc i) rs))"
    using write_array_loop_fail_at [of i rs client hw] assms(1-5) ne
    by (simp add: gc2145_write_array_def)
  have taken: "program_writes (take (Suc i) rs) = take k (program_writes rs)"
    using program_writes_take [of "Suc i" rs] assms(6) by simp
  have writes: "bus_writes (trace (snd (gc2145_write_array (Some client) (Some rs) hw)))
         = bus_writes (trace hw) @ take k (program_writes rs)"
    by (simp add: run hw_after_trace bus_writes_append bus_writes_events_of taken)
  from assms(1) have split: "take (Suc i) rs = take i rs @ [rs ! i]"
    by (simp add: take_Suc_conv_app_nth)
  have last_w: "program_writes (take (Suc i) rs) =
                program_writes (take i rs) @ [(addr (rs ! i), val (rs ! i))]"
    using assms(2) by (simp add: split program_writes_def)
  then have kpos: "0 < k" and kval: "k - 1 = length (program_writes (take i rs))"
    using assms(6) by simp_all
  have "length (take k (program_writes rs)) = k"
    using taken assms(6) by simp
  then have kle: "k \<le> length (program_writes rs)" by simp
  have "program_writes rs ! (k - 1) = take k (program_writes rs) ! (k - 1)"
    using kpos by simp
  also have "\<dots> = (addr (rs ! i), val (rs ! i))"
    unfolding taken [symmetric] last_w kval by simp
  finally show ?thesis using run writes kpos kle by simp
qed

theorem write_array_fail_fast_witness:
  "gc2145_write_array (Some (bus_fail_at 2)) (Some demo_regs) hw_init =
     (- 5, hw_init\<lparr>trace := [I2cWrite 0xfe 0x00, Mdelay 10, I2cWrite 0x84 0x02]\<rparr>)
   \<and> bus_writes (trace (snd (gc2145_write_array (Some (bus_fail_at 2)) (Some demo_regs) hw_init)))
       = [(0xfe, 0x00), (0x84, 0x02)]
   \<and> program_writes demo_regs = [(0xfe, 0x00), (0x84, 0x02), (0x17, 0x01)]"
proof -
  have h1: "2 < length demo_regs" by (simp add: demo_regs_def)
  have h2: "addr (demo_regs ! 2) \<noteq> GC2145_REG_NULL"
    by (simp add: demo_regs_def GC2145_REG_NULL_def)
  have h3: "i2c_write (bus_fail_at 2) (hw_after hw_init (take 2 demo_regs))
              (addr (demo_regs ! 2)) (val (demo_regs ! 2)) = - 5"
    by (simp add: demo_regs_def bus_fail_at_def hw_after_def events_of_def hw_init_def)
  have h4: "(- 5 :: int) < 0" by simp
  have h5: "\<forall>j<2. addr (demo_regs ! j) \<noteq> GC2145_REG_NULL \<longrightarrow>
           0 \<le> i2c_write (bus_fail_at 2) (hw_after hw_init (take j demo_regs))
                  (addr (demo_regs ! j)) (val (demo_regs ! j))"
    by (auto simp: bus_fail_at_def demo_regs_def hw_after_def events_of_def hw_init_def
          less_Suc_eq numeral_2_eq_2)
  have h6: "2 = length (program_writes (take (Suc 2) demo_regs))"
    by (simp add: demo_regs_def program_writes_def GC2145_REG_NULL_def)
  have pw: "program_writes demo_regs = [(0xfe, 0x00), (0x84, 0x02), (0x17, 0x01)]"
    by (simp add: demo_regs_def program_writes_def GC2145_REG_NULL_def)
  have after: "hw_after hw_init (take (Suc 2) demo_regs) =
      hw_init\<lparr>trace := [I2cWrite 0xfe 0x00, Mdelay 10, I2cWrite 0x84 0x02]\<rparr>"
    by (simp add: demo_regs_def hw_after_def events_of_def hw_init_def GC2145_REG_NULL_def)
  have t0: "bus_writes (trace hw_init) = []" by (simp add: hw_init_def)
  from write_array_fail_fast [OF h1 h2 h3 h4 h5 h6] pw after t0
  show ?thesis by simp
qed









section \<open>Properties of format negotiation\<close>

lemma get_fmt_active:
  "pad q = 0 \<Longrightarrow> which q = V4L2_SUBDEV_FORMAT_ACTIVE \<Longrightarrow>
   gc2145_get_fmt sensor cfg q = (0, q\<lparr>format := fmt sensor\<rparr>)"
  by (simp add: gc2145_get_fmt_def V4L2_SUBDEV_FORMAT_ACTIVE_def V4L2_SUBDEV_FORMAT_TRY_def)

lemma get_fmt_try:
  "pad q = 0 \<Longrightarrow> which q = V4L2_SUBDEV_FORMAT_TRY \<Longrightarrow>
   gc2145_get_fmt sensor cfg q = (0, q\<lparr>format := try_fmt cfg\<rparr>)"
  by (simp add: gc2145_get_fmt_def)

text \<open>
  Claim C2, as the code has it. \<^const>\<open>gc2145_set_fmt\<close> overwrites the requested width
  and height with 800 and 600 before it resolves the mode. On pad 0 every request,
  trial or active, therefore returns 800 by 600, the dimensions of the SVGA mode that
  \<^const>\<open>gc2145_find_mode\<close> finds for 800 by 600; an active request stores that mode and
  format in the device, whether or not the register writes succeed, and a trial
  request stores the format in the pad configuration, so that the matching
  \<^const>\<open>gc2145_get_fmt\<close> returns 800 by 600 as well.
\<close>

theorem set_fmt_always_svga:
  assumes "pad fm = 0"
    and "R = gc2145_set_fmt client sensor cfg fm hw"
  shows "width (set_fmt_format R) = 800 \<and> height (set_fmt_format R) = 600
     \<and> gc2145_find_mode 800 600 True = Some (gc2145_mode_list ! 2)
     \<and> mode_id (gc2145_mode_list ! 2) = GC2145_MODE_SVGA_800_600
     \<and> (which fm = V4L2_SUBDEV_FORMAT_ACTIVE \<longrightarrow>
          current_mode (set_fmt_dev R) = Some (gc2145_mode_list ! 2)
          \<and> gc2145_get_fmt (set_fmt_dev R) (set_fmt_cfg R) (fm\<lparr>format := f0\<rparr>)
              = (0, fm\<lparr>format := set_fmt_format R\<rparr>))
     \<and> (which fm = V4L2_SUBDEV_FORMAT_TRY \<longrightarrow>
          set_fmt_ret R = 0
          \<and> gc2145_get_fmt (set_fmt_dev R) (set_fmt_cfg R) (fm\<lparr>format := f0\<rparr>)
              = (0, fm\<lparr>format := set_fmt_format R\<rparr>))"
proof -
  have f: "set_fmt_format R = set_fmt_resolved (format fm)"
    using assms by (simp add: set_fmt_format_pad0)
  have dims: "width (set_fmt_format R) = 800 \<and> height (set_fmt_format R) = 600"
    by (simp add: f set_fmt_resolved_fields)
  have act: "current_mode (set_fmt_dev R) = Some (gc2145_mode_list ! 2)
          \<and> gc2145_get_fmt (set_fmt_dev R) (set_fmt_cfg R) (fm\<lparr>format := f0\<rparr>)
              = (0, fm\<lparr>format := set_fmt_format R\<rparr>)"
    if w: "which fm = V4L2_SUBDEV_FORMAT_ACTIVE"
  proof -
    have "set_fmt_dev R = sensor\<lparr>fmt := set_fmt_resolved (format fm),
                                 current_mode := Some (gc2145_mode_list ! 2)\<rparr>"
      using assms w by (simp add: set_fmt_active set_fmt_dev_def)
    then show ?thesis using assms(1) w by (simp add: f get_fmt_active)
  qed
  have trial: "set_fmt_ret R = 0
          \<and> gc2145_get_fmt (set_fmt_dev R) (set_fmt_cfg R) (fm\<lparr>format := f0\<rparr>)
              = (0, fm\<lparr>format := set_fmt_format R\<rparr>)"
    if w: "which fm = V4L2_SUBDEV_FORMAT_TRY"
  proof -
    have "set_fmt_ret R = 0"
      and "set_fmt_cfg R = cfg\<lparr>try_fmt := set_fmt_resolved (format fm)\<rparr>"
      using assms w by (simp_all add: set_fmt_try set_fmt_ret_def set_fmt_cfg_def)
    then show ?thesis using assms(1) w by (simp add: f get_fmt_try)
  qed
  from dims act trial show ?thesis by (simp add: find_mode_800_600 mode_svga)
qed

theorem set_fmt_always_svga_witness:
  "width (set_fmt_format (gc2145_set_fmt (bus_ok 0) probed_dev zero_cfg
        (request V4L2_SUBDEV_FORMAT_TRY 0 320 240 MEDIA_BUS_FMT_UYVY8_2X8) hw_init)) = 800
   \<and> height (set_fmt_format (gc2145_set_fmt (bus_ok 0) probed_dev zero_cfg
        (request V4L2_SUBDEV_FORMAT_TRY 0 320 240 MEDIA_BUS_FMT_UYVY8_2X8) hw_init)) = 600
   \<and> set_fmt_ret (gc2145_set_fmt (bus_ok 0) probed_dev zero_cfg
        (request V4L2_SUBDEV_FORMAT_TRY 0 320 240 MEDIA_BUS_FMT_UYVY8_2X8) hw_init) = 0
   \<and> current_mode (set_fmt_dev (gc2145_set_fmt bus_dead probed_dev zero_cfg
        (request V4L2_SUBDEV_FORMAT_ACTIVE 0 1600 1200 MEDIA_BUS_FMT_UYVY8_2X8) hw_init))
       = Some (gc2145_mode_list ! 2)"
proof -
  have p: "pad (request V4L2_SUBDEV_FORMAT_TRY 0 320 240 MEDIA_BUS_FMT_UYVY8_2X8) = 0"
      "which (request V4L2_SUBDEV_FORMAT_TRY 0 320 240 MEDIA_BUS_FMT_UYVY8_2X8)
        = V4L2_SUBDEV_FORMAT_TRY"
      "pad (request V4L2_SUBDEV_FORMAT_ACTIVE 0 1600 1200 MEDIA_BUS_FMT_UYVY8_2X8) = 0"
      "which (request V4L2_SUBDEV_FORMAT_ACTIVE 0 1600 1200 MEDIA_BUS_FMT_UYVY8_2X8)
        = V4L2_SUBDEV_FORMAT_ACTIVE"
    by (simp_all add: request_def)
  from set_fmt_always_svga [OF p(1) refl, of "bus_ok 0" probed_dev zero_cfg hw_init] p(2)
  have a: "width (set_fmt_format (gc2145_set_fmt (bus_ok 0) probed_dev zero_cfg
        (request V4L2_SUBDEV_FORMAT_TRY 0 320 240 MEDIA_BUS_FMT_UYVY8_2X8) hw_init)) = 800
   \<and> height (set_fmt_format (gc2145_set_fmt (bus_ok 0) probed_dev zero_cfg
        (request V4L2_SUBDEV_FORMAT_TRY 0 320 240 MEDIA_BUS_FMT_UYVY8_2X8) hw_init)) = 600
   \<and> set_fmt_ret (gc2145_set_fmt (bus_ok 0) probed_dev zero_cfg
        (request V4L2_SUBDEV_FORMAT_TRY 0 320 240 MEDIA_BUS_FMT_UYVY8_2X8) hw_init) = 0"
    by simp
  from set_fmt_always_svga [OF p(3) refl, of bus_dead probed_dev zero_cfg hw_init] p(4)
  have b: "current_mode (set_fmt_dev (gc2145_set_fmt bus_dead probed_dev zero_cfg
        (request V4L2_SUBDEV_FORMAT_ACTIVE 0 1600 1200 MEDIA_BUS_FMT_UYVY8_2X8) hw_init))
       = Some (gc2145_mode_list ! 2)"
    by simp
  from a b show ?thesis by simp
qed

text \<open>
  Claim C2 as stated fails: on a transport where every transfer succeeds, an active
  request for 640 by 480 in YUYV on the freshly probed device returns 0, and the
  active format read back afterwards is 800 by 600 (in YUYV), not 640 by 480.
\<close>

theorem set_fmt_vga_counterexample:
  "set_fmt_ret (gc2145_set_fmt (bus_ok 0) probed_dev zero_cfg
        (request V4L2_SUBDEV_FORMAT_ACTIVE 0 640 480 MEDIA_BUS_FMT_YUYV8_2X8) hw_init) = 0
   \<and> fst (gc2145_get_fmt
        (set_fmt_dev (gc2145_set_fmt (bus_ok 0) probed_dev zero_cfg
           (request V4L2_SUBDEV_FORMAT_ACTIVE 0 640 480 MEDIA_BUS_FMT_YUYV8_2X8) hw_init))
        (set_fmt_cfg (gc2145_set_fmt (bus_ok 0) probed_dev zero_cfg
           (request V4L2_SUBDEV_FORMAT_ACTIVE 0 640 480 MEDIA_BUS_FMT_YUYV8_2X8) hw_init))
        (request V4L2_SUBDEV_FORMAT_ACTIVE 0 0 0 0)) = 0
   \<and> width (format (snd (gc2145_get_fmt
        (set_fmt_dev (gc2145_set_fmt (bus_ok 0) probed_dev zero_cfg
           (request V4L2_SUBDEV_FORMAT_ACTIVE 0 640 480 MEDIA_BUS_FMT_YUYV8_2X8) hw_init))
        (set_fmt_cfg (gc2145_set_fmt (bus_ok 0) probed_dev zero_cfg
           (request V4L2_SUBDEV_FORMAT_ACTIVE 0 640 480 MEDIA_BUS_FMT_YUYV8_2X8) hw_init))
        (request V4L2_SUBDEV_FORMAT_ACTIVE 0 0 0 0)))) = 800
   \<and> height (format (snd (gc2145_get_fmt
        (set_fmt_dev (gc2145_set_fmt (bus_ok 0) probed_dev zero_cfg
           (request V4L2_SUBDEV_FORMAT_ACTIVE 0 640 480 MEDIA_BUS_FMT_YUYV8_2X8) hw_init))
        (set_fmt_cfg (gc2145_set_fmt (bus_ok 0) probed_dev zero_cfg
           (request V4L2_SUBDEV_FORMAT_ACTIVE 0 640 480 MEDIA_BUS_FMT_YUYV8_2X8) hw_init))
        (request V4L2_SUBDEV_FORMAT_ACTIVE 0 0 0 0)))) = 600
   \<and> mbus_code (format (snd (gc2145_get_fmt
        (set_fmt_dev (gc2145_set_fmt (bus_ok 0) probed_dev zero_cfg
           (request V4L2_SUBDEV_FORMAT_ACTIVE 0 640 480 MEDIA_BUS_FMT_YUYV8_2X8) hw_init))
        (set_fmt_cfg (gc2145_set_fmt (bus_ok 0) probed_dev zero_cfg
           (request V4L2_SUBDEV_FORMAT_ACTIVE 0 640 480 MEDIA_BUS_FMT_YUYV8_2X8) hw_init))
        (request V4L2_SUBDEV_FORMAT_ACTIVE 0 0 0 0)))) = MEDIA_BUS_FMT_YUYV8_2X8"
proof -
  let ?fm = "request V4L2_SUBDEV_FORMAT_ACTIVE 0 640 480 MEDIA_BUS_FMT_YUYV8_2X8"
  let ?q = "request V4L2_SUBDEV_FORMAT_ACTIVE 0 0 0 0"
  let ?R = "gc2145_set_fmt (bus_ok 0) probed_dev zero_cfg ?fm hw_init"
  have p: "pad ?fm = 0" "which ?fm = V4L2_SUBDEV_FORMAT_ACTIVE"
      "mbus_code (format ?fm) = MEDIA_BUS_FMT_YUYV8_2X8"
      "pad ?q = 0" "which ?q = V4L2_SUBDEV_FORMAT_ACTIVE"
    by (simp_all add: request_def zero_framefmt_def)
  have ok: "\<forall>h a v. 0 \<le> i2c_write (bus_ok 0) h a v" by (simp add: bus_ok_def)
  have ret: "set_fmt_ret ?R = 0"
    using p(1,2) ok by (simp add: set_fmt_active set_fmt_ret_def params_set_all_ok)
  have dev: "fmt (set_fmt_dev ?R) = set_fmt_resolved (format ?fm)"
    using p(1,2) by (simp add: set_fmt_active set_fmt_dev_def)
  have yuyv: "code (gc2145_find_pixfmt MEDIA_BUS_FMT_YUYV8_2X8) = MEDIA_BUS_FMT_YUYV8_2X8"
    by (simp add: gc2145_find_pixfmt_def gc2145_find_pixfmt_index_def
          gc2145_find_pixfmt_loop.simps gc2145_format_list_def
          MEDIA_BUS_FMT_YUYV8_2X8_def MEDIA_BUS_FMT_UYVY8_2X8_def MEDIA_BUS_FMT_VYUY8_2X8_def)
  have get: "gc2145_get_fmt (set_fmt_dev ?R) (set_fmt_cfg ?R) ?q
             = (0, ?q\<lparr>format := set_fmt_resolved (format ?fm)\<rparr>)"
    using p(4,5) by (simp add: get_fmt_active dev)
  show ?thesis
    unfolding get using ret p(3) by (simp add: set_fmt_resolved_fields yuyv)
qed

lemma write_array_loop_append:
  "gc2145_write_array_loop client (xs @ ys) 0 hw =
     (case gc2145_write_array_loop client xs 0 hw of
        (r, hw1) \<Rightarrow> if r < 0 then (r, hw1) else gc2145_write_array_loop client ys 0 hw1)"
proof (induction xs arbitrary: hw)
  case Nil
  then show ?case by simp
next
  case (Cons x xs)
  consider (delay) "addr x = GC2145_REG_NULL"
    | (ok) "addr x \<noteq> GC2145_REG_NULL" "0 \<le> i2c_write client hw (addr x) (val x)"
    | (fail) "addr x \<noteq> GC2145_REG_NULL" "i2c_write client hw (addr x) (val x) < 0"
    by fastforce
  then show ?case
  proof cases
    case delay
    then show ?thesis by (simp add: Cons.IH)
  next
    case ok
    then show ?thesis by (simp add: Cons.IH write_reg_ok)
  next
    case fail
    then show ?thesis by (simp add: write_reg_fail)
  qed
qed

lemma write_array_loop_two:
  assumes "addr p \<noteq> GC2145_REG_NULL" "addr q \<noteq> GC2145_REG_NULL"
  shows "gc2145_write_array_loop client [p, q] 0 hw1 =
     (case gc2145_write_reg client (addr p) (val p) hw1 of
        (ret2, hw2) \<Rightarrow>
          if ret2 < 0 then (ret2, hw2)
          else (case gc2145_write_reg client (addr q) (val q) hw2 of
                  (ret3, hw3) \<Rightarrow> if ret3 < 0 then (ret3, hw3) else (0, hw3)))"
  using assms by (simp add: gc2145_write_reg_def Let_def)

lemma find_pixfmt_index_lt: "gc2145_find_pixfmt_index c < length gc2145_format_list"
  by (simp add: gc2145_find_pixfmt_index_def Let_def format_list_length)

lemma fmt_reg_addr:
  "addr (fmt_reg (gc2145_find_pixfmt c) ! 0) = GC2145_REG_OUTPUT_FORMAT"
proof -
  have "\<forall>p\<in>set gc2145_format_list. addr (fmt_reg p ! 0) = GC2145_REG_OUTPUT_FORMAT"
    by (simp add: gc2145_format_list_def gc2145_fmt_yuv422_uyvy_def gc2145_fmt_yuv422_vyuy_def
          gc2145_fmt_yuv422_yuyv_def gc2145_fmt_yuv422_yvyu_def gc2145_fmt_raw_def
          GC2145_REG_OUTPUT_FORMAT_def)
  moreover have "gc2145_find_pixfmt c \<in> set gc2145_format_list"
    unfolding gc2145_find_pixfmt_def using find_pixfmt_index_lt by (rule nth_mem)
  ultimately show ?thesis by blast
qed

lemma params_set_as_program:
  "gc2145_params_set client sensor hw =
   gc2145_write_array (Some client) (Some (params_program sensor)) hw"
proof -
  let ?p = "\<lparr>addr = GC2145_REG_PAGE_SELECT, val = 0x00\<rparr>"
  let ?q = "fmt_reg (gc2145_find_pixfmt (mbus_code (fmt sensor))) ! 0"
  have p: "addr ?p \<noteq> GC2145_REG_NULL"
    by (simp add: GC2145_REG_PAGE_SELECT_def GC2145_REG_NULL_def)
  have q: "addr ?q \<noteq> GC2145_REG_NULL"
    by (simp add: fmt_reg_addr GC2145_REG_OUTPUT_FORMAT_def GC2145_REG_NULL_def)
  have "gc2145_write_array (Some client) (Some (params_program sensor)) hw =
        gc2145_write_array_loop client (gc2145_init_regs @ [?p, ?q]) 0 hw"
    by (simp add: gc2145_write_array_def params_program_def)
  also have "\<dots> = (case gc2145_write_array_loop client gc2145_init_regs 0 hw of
        (r, hw1) \<Rightarrow> if r < 0 then (r, hw1) else gc2145_write_array_loop client [?p, ?q] 0 hw1)"
    by (rule write_array_loop_append)
  also have "\<dots> = gc2145_params_set client sensor hw"
    unfolding write_array_loop_two [OF p q]
    by (simp add: gc2145_params_set_def gc2145_write_array_def init_regs_not_empty Let_def
          cong: if_cong)
  finally show ?thesis by simp
qed

text \<open>
  Claim C1, as the code has it. An active request on pad 0 stores the resolved format
  and mode in the device first and then applies the register program (init program,
  page select, output-format row); what it returns is what applying that program
  returns. So when a register write fails (row \<open>i\<close> being the first one that
  does, with error \<open>err\<close>), \<open>err\<close> is returned, no later row is applied, and the
  device holds the new format and mode all the same: nothing is rolled back.
\<close>

theorem set_fmt_commits_before_writes:
  assumes "pad fm = 0" and "which fm = V4L2_SUBDEV_FORMAT_ACTIVE"
    and "R = gc2145_set_fmt client sensor cfg fm hw"
    and "prog = params_program (set_fmt_dev R)"
  shows "set_fmt_dev R = sensor\<lparr>fmt := set_fmt_resolved (format fm),
                                current_mode := Some (gc2145_mode_list ! 2)\<rparr>
     \<and> (set_fmt_ret R, set_fmt_hw R) = gc2145_write_array (Some client) (Some prog) hw
     \<and> (\<forall>i err.
           i < length prog \<and> addr (prog ! i) \<noteq> GC2145_REG_NULL
           \<and> i2c_write client (hw_after hw (take i prog)) (addr (prog ! i)) (val (prog ! i)) = err
           \<and> err < 0
           \<and> (\<forall>j<i. addr (prog ! j) \<noteq> GC2145_REG_NULL \<longrightarrow>
                  0 \<le> i2c_write client (hw_after hw (take j prog))
                        (addr (prog ! j)) (val (prog ! j)))
           \<longrightarrow> set_fmt_ret R = err \<and> set_fmt_hw R = hw_after hw (take (Suc i) prog))"
proof -
  let ?dev = "sensor\<lparr>fmt := set_fmt_resolved (format fm),
                     current_mode := Some (gc2145_mode_list ! 2)\<rparr>"
  have dev: "set_fmt_dev R = ?dev"
    using assms(1-3) by (simp add: set_fmt_active set_fmt_dev_def)
  have run: "(set_fmt_ret R, set_fmt_hw R) = gc2145_write_array (Some client) (Some prog) hw"
    using assms(1-3) unfolding assms(4) dev
    by (simp add: set_fmt_active set_fmt_ret_def set_fmt_hw_def params_set_as_program)
  have fail: "set_fmt_ret R = err \<and> set_fmt_hw R = hw_after hw (take (Suc i) prog)"
    if h: "i < length prog" "addr (prog ! i) \<noteq> GC2145_REG_NULL"
      "i2c_write client (hw_after hw (take i prog)) (addr (prog ! i)) (val (prog ! i)) = err"
      "err < 0"
      "\<forall>j<i. addr (prog ! j) \<noteq> GC2145_REG_NULL \<longrightarrow>
                  0 \<le> i2c_write client (hw_after hw (take j prog))
                        (addr (prog ! j)) (val (prog ! j))"
    for i err
  proof -
    from h(1) have ne: "length prog \<noteq> 0" by auto
    have "gc2145_write_array (Some client) (Some prog) hw = (err, hw_after hw (take (Suc i) prog))"
      using write_array_loop_fail_at [of i prog client hw] h ne
      by (simp add: gc2145_write_array_def)
    with run show ?thesis by simp
  qed
  from dev run fail show ?thesis by blast
qed

lemma init_regs_head:
  "length gc2145_init_regs = 638"
  "gc2145_init_regs ! 0 = \<lparr>addr = 0xfe, val = 0xf0\<rparr>"
  "gc2145_init_regs ! 1 = \<lparr>addr = 0xfe, val = 0xf0\<rparr>"
  "take 1 gc2145_init_regs = [\<lparr>addr = 0xfe, val = 0xf0\<rparr>]"
  "take 2 gc2145_init_regs = [\<lparr>addr = 0xfe, val = 0xf0\<rparr>, \<lparr>addr = 0xfe, val = 0xf0\<rparr>]"
  "gc2145_init_regs ! Suc 0 = \<lparr>addr = 0xfe, val = 0xf0\<rparr>"
  "take (Suc 0) gc2145_init_regs = [\<lparr>addr = 0xfe, val = 0xf0\<rparr>]"
  by (simp_all add: gc2145_init_regs_def)

lemma params_program_head:
  "1 < length (params_program s)"
  "params_program s ! 0 = \<lparr>addr = 0xfe, val = 0xf0\<rparr>"
  "params_program s ! 1 = \<lparr>addr = 0xfe, val = 0xf0\<rparr>"
  "take 0 (params_program s) = []"
  "take 1 (params_program s) = [\<lparr>addr = 0xfe, val = 0xf0\<rparr>]"
  "take 2 (params_program s) = [\<lparr>addr = 0xfe, val = 0xf0\<rparr>, \<lparr>addr = 0xfe, val = 0xf0\<rparr>]"
  "0 < length (params_program s)"
  "take (Suc 0) (params_program s) = [\<lparr>addr = 0xfe, val = 0xf0\<rparr>]"
  "Suc 0 < length (params_program s)"
  "params_program s ! Suc 0 = \<lparr>addr = 0xfe, val = 0xf0\<rparr>"
  by (simp_all add: params_program_def init_regs_head nth_append)

lemma probed_dev_fmt:
  "mbus_code (fmt probed_dev) = MEDIA_BUS_FMT_UYVY8_2X8"
  "width (fmt probed_dev) = 800" "height (fmt probed_dev) = 600"
  "current_mode probed_dev = Some (gc2145_mode_list ! 2)"
  "pwdn_gpio probed_dev" "reset_gpio probed_dev" "power_count probed_dev = 0"
  by (simp_all add: probed_dev_def gc2145_mode_set_default_def Let_def gc2145_format_list_def
        mode_svga zero_framefmt_def)

lemma find_pixfmt_yuyv:
  "code (gc2145_find_pixfmt MEDIA_BUS_FMT_YUYV8_2X8) = MEDIA_BUS_FMT_YUYV8_2X8"
  by (simp add: gc2145_find_pixfmt_def gc2145_find_pixfmt_index_def
        gc2145_find_pixfmt_loop.simps gc2145_format_list_def
        MEDIA_BUS_FMT_YUYV8_2X8_def MEDIA_BUS_FMT_UYVY8_2X8_def MEDIA_BUS_FMT_VYUY8_2X8_def)

theorem set_fmt_commits_before_writes_witness:
  "set_fmt_ret (gc2145_set_fmt (bus_fail_at 1) probed_dev zero_cfg
        (request V4L2_SUBDEV_FORMAT_ACTIVE 0 640 480 MEDIA_BUS_FMT_YUYV8_2X8) hw_init) = - 5
   \<and> set_fmt_hw (gc2145_set_fmt (bus_fail_at 1) probed_dev zero_cfg
        (request V4L2_SUBDEV_FORMAT_ACTIVE 0 640 480 MEDIA_BUS_FMT_YUYV8_2X8) hw_init)
       = hw_init\<lparr>trace := [I2cWrite 0xfe 0xf0, I2cWrite 0xfe 0xf0]\<rparr>
   \<and> mbus_code (fmt (set_fmt_dev (gc2145_set_fmt (bus_fail_at 1) probed_dev zero_cfg
        (request V4L2_SUBDEV_FORMAT_ACTIVE 0 640 480 MEDIA_BUS_FMT_YUYV8_2X8) hw_init)))
       = MEDIA_BUS_FMT_YUYV8_2X8
   \<and> current_mode (set_fmt_dev (gc2145_set_fmt (bus_fail_at 1) probed_dev zero_cfg
        (request V4L2_SUBDEV_FORMAT_ACTIVE 0 640 480 MEDIA_BUS_FMT_YUYV8_2X8) hw_init))
       = Some (gc2145_mode_list ! 2)"
proof -
  let ?fm = "request V4L2_SUBDEV_FORMAT_ACTIVE 0 640 480 MEDIA_BUS_FMT_YUYV8_2X8"
  let ?R = "gc2145_set_fmt (bus_fail_at 1) probed_dev zero_cfg ?fm hw_init"
  let ?prog = "params_program (set_fmt_dev ?R)"
  have p: "pad ?fm = 0" "which ?fm = V4L2_SUBDEV_FORMAT_ACTIVE"
      "mbus_code (format ?fm) = MEDIA_BUS_FMT_YUYV8_2X8"
    by (simp_all add: request_def zero_framefmt_def)
  note inst = set_fmt_commits_before_writes [OF p(1,2) refl refl,
      of "bus_fail_at 1" probed_dev zero_cfg hw_init]
  have h: "1 < length ?prog \<and> addr (?prog ! 1) \<noteq> GC2145_REG_NULL
           \<and> i2c_write (bus_fail_at 1) (hw_after hw_init (take 1 ?prog))
                (addr (?prog ! 1)) (val (?prog ! 1)) = - 5
           \<and> (- 5 :: int) < 0
           \<and> (\<forall>j<1. addr (?prog ! j) \<noteq> GC2145_REG_NULL \<longrightarrow>
                  0 \<le> i2c_write (bus_fail_at 1) (hw_after hw_init (take j ?prog))
                        (addr (?prog ! j)) (val (?prog ! j)))"
    by (simp add: params_program_head GC2145_REG_NULL_def bus_fail_at_def hw_after_def
          events_of_def hw_init_def)
  from inst h have r: "set_fmt_ret ?R = - 5"
      and w: "set_fmt_hw ?R = hw_after hw_init (take (Suc 1) ?prog)"
    by blast+
  from inst have d: "set_fmt_dev ?R = probed_dev\<lparr>fmt := set_fmt_resolved (format ?fm),
                                current_mode := Some (gc2145_mode_list ! 2)\<rparr>"
    by blast
  have w': "hw_after hw_init (take (Suc 1) ?prog)
            = hw_init\<lparr>trace := [I2cWrite 0xfe 0xf0, I2cWrite 0xfe 0xf0]\<rparr>"
    unfolding Suc_1 params_program_head(6)
    by (simp add: hw_after_def events_of_def hw_init_def GC2145_REG_NULL_def)
  have w2: "set_fmt_hw ?R = hw_init\<lparr>trace := [I2cWrite 0xfe 0xf0, I2cWrite 0xfe 0xf0]\<rparr>"
    using w w' by (simp only:)
  have c1: "mbus_code (fmt (set_fmt_dev ?R)) = MEDIA_BUS_FMT_YUYV8_2X8"
    unfolding d by (simp add: set_fmt_resolved_fields p(3) find_pixfmt_yuyv)
  have c2: "current_mode (set_fmt_dev ?R) = Some (gc2145_mode_list ! 2)"
    unfolding d by simp
  from r w2 c1 c2 show ?thesis by blast
qed

text \<open>
  Claim C1 as stated fails: on a transport where every transfer fails, an active
  request for YUYV on the freshly probed device (committed format UYVY) returns the
  transport's error after the very first write, and the device's committed format is
  YUYV afterwards.
\<close>

theorem set_fmt_failed_write_counterexample:
  "set_fmt_ret (gc2145_set_fmt bus_dead probed_dev zero_cfg
        (request V4L2_SUBDEV_FORMAT_ACTIVE 0 800 600 MEDIA_BUS_FMT_YUYV8_2X8) hw_init) = - 5
   \<and> trace (set_fmt_hw (gc2145_set_fmt bus_dead probed_dev zero_cfg
        (request V4L2_SUBDEV_FORMAT_ACTIVE 0 800 600 MEDIA_BUS_FMT_YUYV8_2X8) hw_init))
       = [I2cWrite 0xfe 0xf0]
   \<and> mbus_code (fmt probed_dev) = MEDIA_BUS_FMT_UYVY8_2X8
   \<and> mbus_code (fmt (set_fmt_dev (gc2145_set_fmt bus_dead probed_dev zero_cfg
        (request V4L2_SUBDEV_FORMAT_ACTIVE 0 800 600 MEDIA_BUS_FMT_YUYV8_2X8) hw_init)))
       = MEDIA_BUS_FMT_YUYV8_2X8
   \<and> fmt (set_fmt_dev (gc2145_set_fmt bus_dead probed_dev zero_cfg
        (request V4L2_SUBDEV_FORMAT_ACTIVE 0 800 600 MEDIA_BUS_FMT_YUYV8_2X8) hw_init))
       \<noteq> fmt probed_dev"
proof -
  let ?fm = "request V4L2_SUBDEV_FORMAT_ACTIVE 0 800 600 MEDIA_BUS_FMT_YUYV8_2X8"
  let ?R = "gc2145_set_fmt bus_dead probed_dev zero_cfg ?fm hw_init"
  let ?dev = "probed_dev\<lparr>fmt := set_fmt_resolved (format ?fm),
                         current_mode := Some (gc2145_mode_list ! 2)\<rparr>"
  have p: "pad ?fm = 0" "which ?fm = V4L2_SUBDEV_FORMAT_ACTIVE"
      "mbus_code (format ?fm) = MEDIA_BUS_FMT_YUYV8_2X8"
    by (simp_all add: request_def zero_framefmt_def)
  have h1: "0 < length (params_program ?dev)" by (rule params_program_head)
  have h2: "addr (params_program ?dev ! 0) \<noteq> GC2145_REG_NULL"
    by (simp add: params_program_head GC2145_REG_NULL_def)
  have h3: "i2c_write bus_dead (hw_after hw_init (take 0 (params_program ?dev)))
              (addr (params_program ?dev ! 0)) (val (params_program ?dev ! 0)) < 0"
    by (simp add: bus_dead_def)
  have h4: "\<forall>j<0. addr (params_program ?dev ! j) \<noteq> GC2145_REG_NULL \<longrightarrow>
      0 \<le> i2c_write bus_dead (hw_after hw_init (take j (params_program ?dev)))
            (addr (params_program ?dev ! j)) (val (params_program ?dev ! j))"
    by simp
  have run: "gc2145_write_array_loop bus_dead (params_program ?dev) 0 hw_init =
        (- 5, hw_after hw_init (take (Suc 0) (params_program ?dev)))"
    using write_array_loop_fail_at [OF h1 h2 h3 h4] by (simp add: bus_dead_def)
  have after: "hw_after hw_init (take (Suc 0) (params_program ?dev)) =
        hw_init\<lparr>trace := [I2cWrite 0xfe 0xf0]\<rparr>"
    by (simp add: params_program_head hw_after_def events_of_def hw_init_def GC2145_REG_NULL_def)
  have ps: "gc2145_params_set bus_dead ?dev hw_init =
        (- 5, hw_init\<lparr>trace := [I2cWrite 0xfe 0xf0]\<rparr>)"
    using h1 by (simp add: params_set_as_program gc2145_write_array_def run after)
  have R: "?R = (- 5, ?dev, zero_cfg, ?fm\<lparr>format := set_fmt_resolved (format ?fm)\<rparr>,
                 hw_init\<lparr>trace := [I2cWrite 0xfe 0xf0]\<rparr>)"
    using p(1,2) by (simp add: set_fmt_active ps)
  have c: "mbus_code (fmt ?dev) = MEDIA_BUS_FMT_YUYV8_2X8"
    by (simp add: set_fmt_resolved_fields p(3) find_pixfmt_yuyv)
  have ne: "MEDIA_BUS_FMT_YUYV8_2X8 \<noteq> MEDIA_BUS_FMT_UYVY8_2X8"
    by (simp add: MEDIA_BUS_FMT_YUYV8_2X8_def MEDIA_BUS_FMT_UYVY8_2X8_def)
  have "fmt ?dev \<noteq> fmt probed_dev"
    using c ne probed_dev_fmt(1) by metis
  then show ?thesis
    unfolding R using c
    by (simp add: set_fmt_ret_def set_fmt_hw_def set_fmt_dev_def probed_dev_fmt hw_init_def)
qed

section \<open>Identification and the power reference count\<close>

lemma set_power_on_probed:
  "gc2145_set_power_on (Some probed_dev) hw =
     (0, hw\<lparr>pwdn_level := False, reset_level := False,
            trace := trace hw @ power_on_events\<rparr>)"
  by (simp add: gc2145_set_power_on_def gc2145_power_def gc2145_reset_def probed_dev_fmt
        gpiod_set_pwdn_def gpiod_set_reset_def emit_def power_on_events_def Let_def)

text \<open>
  Claim C3 at a concrete device. A chip that answers the identifier reads with
  \<^verbatim>\<open>0x21\<close>, \<^verbatim>\<open>0x00\<close> (low byte wrong) passes \<^const>\<open>gc2145_check_chip_id\<close>, and so does
  one that answers \<^verbatim>\<open>0x00\<close>, \<^verbatim>\<open>0xF1\<close> (both bytes differ from \<^verbatim>\<open>0x2145\<close>): 0 is
  returned and the device stays powered, the clock running. Only when the high byte
  differs from \<^verbatim>\<open>0x21\<close> and the low byte differs from \<^verbatim>\<open>0xF1\<close>, as for
  \<^verbatim>\<open>0x00\<close>, \<^verbatim>\<open>0x00\<close>, is \<^verbatim>\<open>-ENXIO\<close> returned and the device powered down.
\<close>

theorem check_chip_id_accepts_wrong_id:
  "gc2145_check_chip_id (bus_chip 0x21 0x00) probed_dev 0 0 hw_init =
     (0, \<lparr>pwdn_level = False, reset_level = False, xclk_enabled = True,
          trace = power_on_events @ [I2cRead 0xF0, I2cRead 0xF1]\<rparr>)
   \<and> gc2145_check_chip_id (bus_chip 0x00 0xF1) probed_dev 0 0 hw_init =
     (0, \<lparr>pwdn_level = False, reset_level = False, xclk_enabled = True,
          trace = power_on_events @ [I2cRead 0xF0, I2cRead 0xF1]\<rparr>)
   \<and> gc2145_check_chip_id (bus_chip 0x00 0x00) probed_dev 0 0 hw_init =
     (- ENXIO, \<lparr>pwdn_level = True, reset_level = False, xclk_enabled = False,
          trace = power_on_events @ [I2cRead 0xF0, I2cRead 0xF1,
                    GpioPwdn True, Udelay 100, ClkDisableUnprepare]\<rparr>)"
  by (simp add: gc2145_check_chip_id_def set_power_on_probed gc2145_read_reg_def bus_chip_def
        gc2145_set_power_off_def gc2145_power_def gpiod_set_pwdn_def clk_disable_unprepare_def
        probed_dev_fmt emit_def hw_init_def Let_def
        GC2145_CHIP_ID_def GC2145_REG_CHIP_ID_H_def GC2145_REG_CHIP_ID_L_def)

text \<open>
  The reference count is a 32-bit integer: one more power-on at \<^verbatim>\<open>INT_MAX\<close> wraps it
  to \<^verbatim>\<open>INT_MIN\<close>, and \<^verbatim>\<open>WARN_ON\<close> fires.
\<close>

lemma s_power_count_wraps:
  "gc2145_s_power (probed_dev\<lparr>power_count := 0x7fffffff\<rparr>) 1 hw_on =
     (0, probed_dev\<lparr>power_count := 0x80000000\<rparr>,
      \<lparr>pwdn_level = False, reset_level = False, xclk_enabled = True, trace = [WarnOn]\<rparr>)
   \<and> sint (0x80000000 :: s32) = - 2147483648"
  by (simp add: gc2145_s_power_def emit_def hw_on_def Let_def)

text \<open>
  Claim C4 at a concrete device. With the reference count at 1 and the device
  powered, \<^verbatim>\<open>gc2145_s_power(sd, 0)\<close> runs the power-on sequence: the count drops to
  0, but the power-down line ends low (not asserted), the clock stays enabled, and
  no event of \<^const>\<open>gc2145_set_power_off\<close> occurs.
\<close>

theorem s_power_off_runs_power_on:
  "gc2145_s_power (probed_dev\<lparr>power_count := 1\<rparr>) 0 hw_on =
     (0, probed_dev\<lparr>power_count := 0\<rparr>,
      \<lparr>pwdn_level = False, reset_level = False, xclk_enabled = True,
       trace = power_on_events\<rparr>)
   \<and> gc2145_s_power probed_dev 1 hw_init =
     (0, probed_dev\<lparr>power_count := 1\<rparr>,
      \<lparr>pwdn_level = False, reset_level = False, xclk_enabled = True,
       trace = power_on_events\<rparr>)
   \<and> snd (gc2145_set_power_off probed_dev hw_on) =
      \<lparr>pwdn_level = True, reset_level = False, xclk_enabled = False,
       trace = [GpioPwdn True, Udelay 100, ClkDisableUnprepare]\<rparr>"
  by (simp add: gc2145_s_power_def gc2145_set_power_on_def gc2145_power_def gc2145_reset_def
        gc2145_set_power_off_def clk_disable_unprepare_def
        probed_dev_fmt gpiod_set_pwdn_def gpiod_set_reset_def emit_def power_on_events_def
        hw_on_def hw_init_def Let_def)

section \<open>Properties of enumeration\<close>

lemma find_pixfmt_code_present:
  "c \<in> code ` set gc2145_format_list \<Longrightarrow> code (gc2145_find_pixfmt c) = c"
  unfolding gc2145_find_pixfmt_def using find_pixfmt_index_present by blast

lemma find_pixfmt_uyvy:
  "code (gc2145_find_pixfmt MEDIA_BUS_FMT_UYVY8_2X8) = MEDIA_BUS_FMT_UYVY8_2X8"
  by (simp add: gc2145_find_pixfmt_def gc2145_find_pixfmt_index_def
        gc2145_find_pixfmt_loop.simps gc2145_format_list_def)

text \<open>
  Claim C5 at a concrete request. On pad 1, \<^const>\<open>gc2145_enum_mbus_code\<close>,
  \<^const>\<open>gc2145_get_fmt\<close> and \<^const>\<open>gc2145_set_fmt\<close> return \<^verbatim>\<open>-EINVAL\<close>, but
  \<^const>\<open>gc2145_enum_frame_size\<close>, which never reads \<^verbatim>\<open>fse->pad\<close>, returns 0 with the
  frame size of the first mode.
\<close>

theorem enum_frame_size_ignores_pad:
  "gc2145_enum_frame_size (fse_request 1 0 MEDIA_BUS_FMT_UYVY8_2X8) =
     Some (0, \<lparr>fse_index = 0, fse_pad = 1, fse_code = MEDIA_BUS_FMT_UYVY8_2X8,
               min_width = 320, max_width = 320, min_height = 240, max_height = 240\<rparr>)
   \<and> fst (gc2145_enum_mbus_code (mce_request 1 0)) = - EINVAL
   \<and> fst (gc2145_get_fmt probed_dev zero_cfg
            (request V4L2_SUBDEV_FORMAT_ACTIVE 1 0 0 0)) = - EINVAL
   \<and> set_fmt_ret (gc2145_set_fmt (bus_ok 0) probed_dev zero_cfg
            (request V4L2_SUBDEV_FORMAT_TRY 1 640 480 MEDIA_BUS_FMT_UYVY8_2X8) hw_init)
       = - EINVAL"
proof (intro conjI)
  show "gc2145_enum_frame_size (fse_request 1 0 MEDIA_BUS_FMT_UYVY8_2X8) =
     Some (0, \<lparr>fse_index = 0, fse_pad = 1, fse_code = MEDIA_BUS_FMT_UYVY8_2X8,
               min_width = 320, max_width = 320, min_height = 240, max_height = 240\<rparr>)"
    by (simp add: gc2145_enum_frame_size_def fse_request_def find_pixfmt_uyvy format_list_length
          mode_list_length Let_def)
       (simp add: gc2145_mode_list_def)
  show "fst (gc2145_enum_mbus_code (mce_request 1 0)) = - EINVAL"
    by (simp add: gc2145_enum_mbus_code_def mce_request_def)
  show "fst (gc2145_get_fmt probed_dev zero_cfg
            (request V4L2_SUBDEV_FORMAT_ACTIVE 1 0 0 0)) = - EINVAL"
    by (simp add: gc2145_get_fmt_def request_def)
  show "set_fmt_ret (gc2145_set_fmt (bus_ok 0) probed_dev zero_cfg
            (request V4L2_SUBDEV_FORMAT_TRY 1 640 480 MEDIA_BUS_FMT_UYVY8_2X8) hw_init)
       = - EINVAL"
    by (simp add: gc2145_set_fmt_def request_def set_fmt_ret_def)
qed

text \<open>
  Claim C6. For a request whose code is in the format catalog and whose index is 4 or
  5, the index passes the only bounds check (against the six formats), the code
  check passes, and the index is beyond the four modes: the read of
  \<^verbatim>\<open>gc2145_mode_list[fse->index]\<close> is out of bounds, and the model has no result.
\<close>

theorem enum_frame_size_index_out_of_bounds:
  assumes "fse_index fse = 4 \<or> fse_index fse = 5"
    and "fse_code fse \<in> code ` set gc2145_format_list"
  shows "\<not> unat (fse_index fse) \<ge> length gc2145_format_list
     \<and> code (gc2145_find_pixfmt (fse_code fse)) = fse_code fse
     \<and> \<not> unat (fse_index fse) < length gc2145_mode_list
     \<and> gc2145_enum_frame_size fse = None"
proof -
  from assms(1) have i: "unat (fse_index fse) = 4 \<or> unat (fse_index fse) = 5" by auto
  then have a: "\<not> unat (fse_index fse) \<ge> length gc2145_format_list"
    and b: "\<not> unat (fse_index fse) < length gc2145_mode_list"
    by (auto simp: format_list_length mode_list_length)
  have c: "code (gc2145_find_pixfmt (fse_code fse)) = fse_code fse"
    using assms(2) by (rule find_pixfmt_code_present)
  from a b c have "gc2145_enum_frame_size fse = None"
    by (simp add: gc2145_enum_frame_size_def Let_def)
  with a b c show ?thesis by simp
qed

theorem enum_frame_size_index_out_of_bounds_witness:
  "gc2145_enum_frame_size (fse_request 0 4 MEDIA_BUS_FMT_UYVY8_2X8) = None
   \<and> gc2145_enum_frame_size (fse_request 0 5 MEDIA_BUS_FMT_SBGGR8_1X8) = None
   \<and> \<not> unat (4 :: u32) \<ge> length gc2145_format_list
   \<and> \<not> unat (4 :: u32) < length gc2145_mode_list"
proof -
  have a: "fse_index (fse_request 0 4 MEDIA_BUS_FMT_UYVY8_2X8) = 4
             \<or> fse_index (fse_request 0 4 MEDIA_BUS_FMT_UYVY8_2X8) = 5"
    and b: "fse_code (fse_request 0 4 MEDIA_BUS_FMT_UYVY8_2X8) \<in> code ` set gc2145_format_list"
    and c: "fse_index (fse_request 0 5 MEDIA_BUS_FMT_SBGGR8_1X8) = 4
             \<or> fse_index (fse_request 0 5 MEDIA_BUS_FMT_SBGGR8_1X8) = 5"
    and d: "fse_code (fse_request 0 5 MEDIA_BUS_FMT_SBGGR8_1X8) \<in> code ` set gc2145_format_list"
    by (simp_all add: fse_request_def gc2145_format_list_def)
  from enum_frame_size_index_out_of_bounds [OF a b] enum_frame_size_index_out_of_bounds [OF c d]
  show ?thesis by (simp add: fse_request_def)
qed

section \<open>The vertical flip control\<close>

lemma or_2_bits:
  fixes b :: u8
  shows "bit (b OR 0x02) n \<longleftrightarrow> n = 1 \<or> bit b n"
  by (auto simp: bit_or_iff bit_2_iff)

lemma fd_is_not_2: "(0xfd :: u8) = NOT 0x02"
  by simp

lemma and_fd_bits:
  fixes b :: u8
  shows "bit (b AND 0xfd) n \<longleftrightarrow> n \<noteq> 1 \<and> bit b n"
proof -
  have "bit (b AND NOT 0x02) n \<longleftrightarrow> bit b n \<and> \<not> bit (0x02 :: u8) n"
    unfolding bit_and_iff bit_not_iff using bit_imp_possible_bit [of b n] by blast
  also have "\<dots> \<longleftrightarrow> n \<noteq> 1 \<and> bit b n"
    by (auto simp: bit_2_iff)
  finally show ?thesis unfolding fd_is_not_2 .
qed

lemma s_vflip_after_read:
  assumes "0 \<le> i2c_write client hw 0xfe 0x00"
    and "i2c_read client (emit (I2cWrite 0xfe 0x00) hw) 0x17 = (r, b)" and "0 \<le> r"
  shows "gc2145_s_vflip client v hw =
    (let hw2 = emit (I2cRead 0x17) (emit (I2cWrite 0xfe 0x00) hw)
     in if v = 0 \<or> v = 1
        then (case gc2145_write_reg client 0x17 (if v = 0 then b AND 0xfd else b OR 0x02) hw2 of
                (ret3, hw3) \<Rightarrow> if ret3 < 0 then (ret3, hw3) else (0, emit (Mdelay 20) hw3))
        else (- EINVAL, hw2))"
  using assms
  by (simp add: gc2145_s_vflip_def write_reg_ok gc2145_read_reg_def Let_def cong: if_cong)

lemma write_reg_bus_writes:
  "bus_writes (trace (snd (gc2145_write_reg client a x hw))) = bus_writes (trace hw) @ [(a, x)]"
  by (simp add: gc2145_write_reg_def Let_def emit_def bus_writes_append)

lemma s_vflip_writes:
  assumes "0 \<le> i2c_write client hw 0xfe 0x00"
    and "i2c_read client (emit (I2cWrite 0xfe 0x00) hw) 0x17 = (r, b)" and "0 \<le> r"
    and "v = 0 \<or> v = 1"
  shows "bus_writes (trace (snd (gc2145_s_vflip client v hw))) =
           bus_writes (trace hw) @ [(0xfe, 0x00), (0x17, if v = 0 then b AND 0xfd else b OR 0x02)]"
proof -
  let ?hw2 = "emit (I2cRead 0x17) (emit (I2cWrite 0xfe 0x00) hw)"
  let ?x = "if v = 0 then b AND 0xfd else b OR 0x02"
  have w2: "bus_writes (trace ?hw2) = bus_writes (trace hw) @ [(0xfe, 0x00)]"
    by (simp add: emit_def bus_writes_append)
  have "snd (gc2145_s_vflip client v hw) = snd (gc2145_write_reg client 0x17 ?x ?hw2)
      \<or> snd (gc2145_s_vflip client v hw) = emit (Mdelay 20) (snd (gc2145_write_reg client 0x17 ?x ?hw2))"
    using assms(4) unfolding s_vflip_after_read [OF assms(1-3)]
    by (auto simp: Let_def split: prod.split)
  then show ?thesis
    using write_reg_bus_writes [of client "0x17" ?x ?hw2] w2
    by (auto simp: emit_def bus_writes_append)
qed

lemma s_vflip_ret_neg:
  assumes "v \<noteq> 0" "v \<noteq> 1"
  shows "fst (gc2145_s_vflip client v hw) < 0"
  using assms
  by (simp add: gc2145_s_vflip_def gc2145_write_reg_def gc2145_read_reg_def Let_def EINVAL_def
        split: prod.split)

lemma s_vflip_no_write_back:
  assumes "v \<noteq> 0" "v \<noteq> 1"
  shows "bus_writes (trace (snd (gc2145_s_vflip client v hw))) = bus_writes (trace hw) @ [(0xfe, 0x00)]"
  using assms
  by (simp add: gc2145_s_vflip_def gc2145_write_reg_def gc2145_read_reg_def Let_def emit_def
        bus_writes_append split: prod.split)

lemma s_vflip_page_select_fails:
  assumes "i2c_write client hw 0xfe 0x00 < 0"
  shows "fst (gc2145_s_vflip client v hw) = i2c_write client hw 0xfe 0x00"
  using assms by (simp add: gc2145_s_vflip_def write_reg_fail)

lemma s_vflip_read_fails:
  assumes "0 \<le> i2c_write client hw 0xfe 0x00"
    and "fst (i2c_read client (emit (I2cWrite 0xfe 0x00) hw) 0x17) < 0"
  shows "fst (gc2145_s_vflip client v hw)
           = fst (i2c_read client (emit (I2cWrite 0xfe 0x00) hw) 0x17)"
proof -
  obtain r b where rd: "i2c_read client (emit (I2cWrite 0xfe 0x00) hw) 0x17 = (r, b)"
    by (cases "i2c_read client (emit (I2cWrite 0xfe 0x00) hw) 0x17")
  with assms(2) have "r < 0" by simp
  with assms(1) rd show ?thesis
    by (simp add: gc2145_s_vflip_def write_reg_ok gc2145_read_reg_def Let_def)
qed

text \<open>
  Claim C10, as the code has it. Let the page-select write succeed and the read of register \<^verbatim>\<open>0x17\<close>
  that follows return the byte \<open>b\<close>. Then \<^const>\<open>gc2145_s_vflip\<close> with value 1
  hands the transport exactly two register writes, the page select and register
  \<^verbatim>\<open>0x17\<close> with \<open>b OR 0x02\<close>: bit 1 set, every other bit as in \<open>b\<close>. With
  value 0 the byte written is \<open>b AND 0xfd\<close>: bit 1 cleared, every other bit as in
  \<open>b\<close>. Any other value then returns \<^verbatim>\<open>-EINVAL\<close>. The value is looked at only
  after these two transfers: when the page-select write fails, or the read after it,
  the transport's error is returned, whatever the value. Whatever the transport does,
  a value other than 0 and 1 makes the call fail, and register \<^verbatim>\<open>0x17\<close> is not
  written.
\<close>

theorem s_vflip_sets_or_clears_bit1:
  "(0 \<le> i2c_write client hw 0xfe 0x00
      \<and> i2c_read client (emit (I2cWrite 0xfe 0x00) hw) 0x17 = (r, b) \<and> 0 \<le> r
    \<longrightarrow>
      bus_writes (trace (snd (gc2145_s_vflip client 1 hw)))
        = bus_writes (trace hw) @ [(0xfe, 0x00), (0x17, b OR 0x02)]
      \<and> bit (b OR 0x02) 1 \<and> (\<forall>n. n \<noteq> 1 \<longrightarrow> bit (b OR 0x02) n = bit b n)
      \<and> bus_writes (trace (snd (gc2145_s_vflip client 0 hw)))
        = bus_writes (trace hw) @ [(0xfe, 0x00), (0x17, b AND 0xfd)]
      \<and> \<not> bit (b AND 0xfd) 1 \<and> (\<forall>n. n \<noteq> 1 \<longrightarrow> bit (b AND 0xfd) n = bit b n)
      \<and> (v \<noteq> 0 \<and> v \<noteq> 1 \<longrightarrow> fst (gc2145_s_vflip client v hw) = - EINVAL))
   \<and> (v \<noteq> 0 \<and> v \<noteq> 1 \<longrightarrow>
        fst (gc2145_s_vflip client v hw) < 0
        \<and> bus_writes (trace (snd (gc2145_s_vflip client v hw)))
            = bus_writes (trace hw) @ [(0xfe, 0x00)])
   \<and> (i2c_write client hw 0xfe 0x00 < 0 \<longrightarrow>
        fst (gc2145_s_vflip client v hw) = i2c_write client hw 0xfe 0x00)
   \<and> (0 \<le> i2c_write client hw 0xfe 0x00
        \<and> fst (i2c_read client (emit (I2cWrite 0xfe 0x00) hw) 0x17) < 0 \<longrightarrow>
        fst (gc2145_s_vflip client v hw)
          = fst (i2c_read client (emit (I2cWrite 0xfe 0x00) hw) 0x17))"
proof (intro conjI impI)
  assume io: "0 \<le> i2c_write client hw 0xfe 0x00
      \<and> i2c_read client (emit (I2cWrite 0xfe 0x00) hw) 0x17 = (r, b) \<and> 0 \<le> r"
  then have h: "0 \<le> i2c_write client hw 0xfe 0x00"
      "i2c_read client (emit (I2cWrite 0xfe 0x00) hw) 0x17 = (r, b)" "0 \<le> r"
    by simp_all
  show "bus_writes (trace (snd (gc2145_s_vflip client 1 hw)))
        = bus_writes (trace hw) @ [(0xfe, 0x00), (0x17, b OR 0x02)]"
    using s_vflip_writes [OF h, of 1] by simp
  show "bus_writes (trace (snd (gc2145_s_vflip client 0 hw)))
        = bus_writes (trace hw) @ [(0xfe, 0x00), (0x17, b AND 0xfd)]"
    using s_vflip_writes [OF h, of 0] by simp
  show "bit (b OR 0x02) 1" by (simp add: or_2_bits)
  show "\<forall>n. n \<noteq> 1 \<longrightarrow> bit (b OR 0x02) n = bit b n" by (simp add: or_2_bits)
  show "\<not> bit (b AND 0xfd) 1" by (simp add: and_fd_bits)
  show "\<forall>n. n \<noteq> 1 \<longrightarrow> bit (b AND 0xfd) n = bit b n" by (simp add: and_fd_bits)
  assume "v \<noteq> 0 \<and> v \<noteq> 1"
  then show "fst (gc2145_s_vflip client v hw) = - EINVAL"
    unfolding s_vflip_after_read [OF h] by (simp add: Let_def)
next
  assume "v \<noteq> 0 \<and> v \<noteq> 1"
  then show "fst (gc2145_s_vflip client v hw) < 0" by (simp add: s_vflip_ret_neg)
next
  assume "v \<noteq> 0 \<and> v \<noteq> 1"
  then show "bus_writes (trace (snd (gc2145_s_vflip client v hw)))
            = bus_writes (trace hw) @ [(0xfe, 0x00)]"
    by (simp add: s_vflip_no_write_back)
next
  assume "i2c_write client hw 0xfe 0x00 < 0"
  then show "fst (gc2145_s_vflip client v hw) = i2c_write client hw 0xfe 0x00"
    by (rule s_vflip_page_select_fails)
next
  assume "0 \<le> i2c_write client hw 0xfe 0x00
        \<and> fst (i2c_read client (emit (I2cWrite 0xfe 0x00) hw) 0x17) < 0"
  then show "fst (gc2145_s_vflip client v hw)
          = fst (i2c_read client (emit (I2cWrite 0xfe 0x00) hw) 0x17)"
    by (simp add: s_vflip_read_fails)
qed

theorem s_vflip_sets_or_clears_bit1_witness:
  "bus_writes (trace (snd (gc2145_s_vflip (bus_ok 0xA4) 1 hw_on))) = [(0xfe, 0x00), (0x17, 0xA6)]
   \<and> bus_writes (trace (snd (gc2145_s_vflip (bus_ok 0xA6) 0 hw_on))) = [(0xfe, 0x00), (0x17, 0xA4)]
   \<and> fst (gc2145_s_vflip (bus_ok 0xA4) 2 hw_on) = - 22
   \<and> fst (gc2145_s_vflip bus_dead 2 hw_on) < 0
   \<and> fst (gc2145_s_vflip bus_dead 1 hw_on) = - 5
   \<and> fst (gc2145_s_vflip (bus_fail_at 1) 1 hw_on) = - 5"
proof -
  have io: "0 \<le> i2c_write (bus_ok x) hw_on 0xfe 0x00
      \<and> i2c_read (bus_ok x) (emit (I2cWrite 0xfe 0x00) hw_on) 0x17 = (2, x) \<and> (0 :: int) \<le> 2"
    for x by (simp add: bus_ok_def)
  have t: "bus_writes (trace hw_on) = []" by (simp add: hw_on_def)
  have v: "(2 :: int) \<noteq> 0 \<and> (2 :: int) \<noteq> 1" by simp
  have x: "(0xA4 :: u8) OR 0x02 = 0xA6" "(0xA6 :: u8) AND 0xfd = 0xA4" by simp_all
  from s_vflip_sets_or_clears_bit1 [of "bus_ok 0xA4" hw_on 2 "0xA4" 2] io [of "0xA4"] v t x
  have a: "bus_writes (trace (snd (gc2145_s_vflip (bus_ok 0xA4) 1 hw_on))) = [(0xfe, 0x00), (0x17, 0xA6)]"
    and c: "fst (gc2145_s_vflip (bus_ok 0xA4) 2 hw_on) = - 22"
    by (simp_all add: EINVAL_def)
  from s_vflip_sets_or_clears_bit1 [of "bus_ok 0xA6" hw_on 2 "0xA6" 2] io [of "0xA6"] t x
  have b: "bus_writes (trace (snd (gc2145_s_vflip (bus_ok 0xA6) 0 hw_on))) = [(0xfe, 0x00), (0x17, 0xA4)]"
    by simp
  from s_vflip_sets_or_clears_bit1 [of bus_dead hw_on 0 0 2] v
  have d: "fst (gc2145_s_vflip bus_dead 2 hw_on) < 0" by simp
  have wf: "i2c_write bus_dead hw_on 0xfe 0x00 = - 5" by (simp add: bus_dead_def)
  from s_vflip_sets_or_clears_bit1 [of bus_dead hw_on 0 0 1] wf
  have e: "fst (gc2145_s_vflip bus_dead 1 hw_on) = - 5" by simp
  have rf: "0 \<le> i2c_write (bus_fail_at 1) hw_on 0xfe 0x00
      \<and> fst (i2c_read (bus_fail_at 1) (emit (I2cWrite 0xfe 0x00) hw_on) 0x17) < 0"
    and rv: "fst (i2c_read (bus_fail_at 1) (emit (I2cWrite 0xfe 0x00) hw_on) 0x17) = - 5"
    by (simp_all add: bus_fail_at_def hw_on_def emit_def)
  from s_vflip_sets_or_clears_bit1 [of "bus_fail_at 1" hw_on 0 0 1] rf rv
  have f: "fst (gc2145_s_vflip (bus_fail_at 1) 1 hw_on) = - 5" by simp
  from a b c d e f show ?thesis by simp
qed

text \<open>
  Claim C10 as stated fails for the invalid values: on a transport where every
  transfer fails, \<^const>\<open>gc2145_s_vflip\<close> with value 2 returns the error of the
  page-select write, \<^verbatim>\<open>-EIO\<close>, and not \<^verbatim>\<open>-EINVAL\<close>.
\<close>

theorem s_vflip_invalid_value_counterexample:
  "gc2145_s_vflip bus_dead 2 hw_on =
     (- 5, \<lparr>pwdn_level = False, reset_level = False, xclk_enabled = True,
            trace = [I2cWrite 0xfe 0x00]\<rparr>)
   \<and> fst (gc2145_s_vflip bus_dead 2 hw_on) \<noteq> - EINVAL"
  by (simp add: gc2145_s_vflip_def gc2145_write_reg_def bus_dead_def emit_def hw_on_def
        Let_def EINVAL_def)

end
